theory Spec2Isabelle
  imports Complex_Main
begin

section \<open>Values, options and the outside world\<close>

text \<open>
  The program is \<^verbatim>\<open>src/index.js\<close>: two commands, \<^verbatim>\<open>print\<close> and
  \<^verbatim>\<open>screenshot\<close>, each a sequence of awaited calls into a browser engine.
  JavaScript values that the program only hands on are kept as \<open>jsvalue\<close>; numbers are
  \<open>real\<close>.
\<close>

datatype jsvalue = JSUndefined | JSNull | JSBoolean bool | JSNumber real | JSString string

text \<open>
  A positional argument, or an option declared without a type, as the argument parser
  delivers it: a string, or a number when the text given looks like one
  (\<^verbatim>\<open>print 123\<close> has \<^verbatim>\<open>argv.url\<close> the number 123).
\<close>

datatype positional = Str string | Num real

text \<open>
  \<^verbatim>\<open>argv.cookie\<close> as the argument parser delivers a \<^verbatim>\<open>type: 'string'\<close> option
  that is not declared as an array: absent when the flag is not used, a plain string when
  it is used once, an array of strings when it is repeated. The same holds for
  \<^verbatim>\<open>argv.viewport\<close>.
\<close>

datatype cookie_arg = CookieUndefined | CookieString string | CookieArray "string list"

datatype viewport_arg = ViewportUndefined | ViewportString string | ViewportArray "string list"

text \<open>
  An error value: an \<^verbatim>\<open>Error\<close> thrown by the program itself, a \<^verbatim>\<open>TypeError\<close> of
  the language or of a package, or a rejection of an engine call.
\<close>

datatype error = Error string | TypeError string | EngineError string

record common_argv =
  url :: positional
  output_arg :: "positional option"
  sandbox :: bool
  timeout :: real
  waitUntil :: string
  cookie :: cookie_arg

record print_argv = common_argv +
  emulateMedia :: string
  injectJs :: string
  scale :: real
  background :: bool
  marginTop :: positional
  marginRight :: positional
  marginBottom :: positional
  marginLeft :: positional
  format :: positional
  landscape :: bool
  displayHeaderFooter :: bool
  headerTemplate :: string
  footerTemplate :: string

record screenshot_argv = common_argv +
  fullPage :: bool
  omitBackground :: bool
  viewport :: viewport_arg

record cookie =
  c_name :: string
  c_value :: string
  c_url :: positional

record navigation_options =
  nav_timeout :: real
  nav_waitUntil :: string

record margin =
  m_top :: positional
  m_right :: positional
  m_bottom :: positional
  m_left :: positional

record pdf_options =
  pdf_path :: "positional option"
  pdf_format :: "positional option"
  pdf_width :: "jsvalue option"
  pdf_height :: "jsvalue option"
  pdf_scale :: real
  pdf_landscape :: bool
  pdf_printBackground :: bool
  pdf_margin :: margin
  pdf_displayHeaderFooter :: bool
  pdf_headerTemplate :: string
  pdf_footerTemplate :: string

record screenshot_options =
  shot_path :: "positional option"
  shot_fullPage :: bool
  shot_omitBackground :: bool

type_synonym buffer = "nat list"

text \<open>
  What \<^verbatim>\<open>parseInt\<close> gives for a string of digits: a number that is a whole number
  of pixels, or \<^verbatim>\<open>Infinity\<close>.
\<close>

datatype pixels = Pixels int | PixelsInfinity

text \<open>
  The packages \<^verbatim>\<open>is-url\<close> and \<^verbatim>\<open>url-parse\<close> are not part of the program; on
  strings they enter as parameters, \<open>parseUrl\<close> standing for
  \<^verbatim>\<open>parseUrl(x).toString()\<close>. So do the working directory of the process and the
  conversion of a number to a string that a template literal makes.
\<close>

record libs =
  isUrl :: "string \<Rightarrow> bool"
  parseUrl :: "string \<Rightarrow> string"
  cwd :: string
  numberToString :: "real \<Rightarrow> string"

text \<open>The calls the program makes into the browser engine.\<close>

datatype call =
    Launch "string list"
  | NewPage
  | SetJavaScriptEnabled bool
  | SetViewport pixels pixels
  | SetCookie "cookie list"
  | Goto string navigation_options
  | Evaluate string
  | EvaluateFunction
  | EmulateMedia string
  | Pdf pdf_options
  | Screenshot screenshot_options
  | Close

text \<open>
  What is observable of a run, in order: engine calls, lines on the standard error
  stream (\<^verbatim>\<open>console.error\<close> with one argument, or with a label and an error),
  writes to the standard output stream, and the report of the runtime when it ends the
  process for a rejection that nothing handles.
\<close>

datatype event =
    Call call
  | ConsoleError string
  | ConsoleErrorWith string error
  | StdoutWrite buffer
  | UncaughtError error

text \<open>
  The engine is the environment: \<open>rejects\<close> says which call fails and with what; the
  other fields are what the successful calls return. \<open>document\<close> is
  \<^verbatim>\<open>document.querySelector\<close> of the loaded page, giving the \<^verbatim>\<open>textContent\<close> of
  the element found. \<open>noticed_after\<close> is a matter of timing: how many further awaited
  calls are answered before the runtime acts on the rejection of a call whose promise the
  program dropped.
\<close>

record engine =
  rejects :: "call \<Rightarrow> error option"
  evaluate_result :: "string \<Rightarrow> jsvalue"
  document :: "string \<Rightarrow> string option"
  pdf_result :: "pdf_options \<Rightarrow> buffer"
  screenshot_result :: "screenshot_options \<Rightarrow> buffer"
  noticed_after :: nat

section \<open>Sequencing with exceptions and process exit\<close>

text \<open>
  A step either returns, throws, or ends the process (\<^verbatim>\<open>process.exit(n)\<close>), and
  it causes events. The program never reads back what it has done, so a computation is
  its outcome together with the events it caused, in order.
\<close>

datatype 'a result = Return 'a | Throw error | Exited nat

type_synonym 'a io = "'a result \<times> event list"

abbreviation outcome :: "'a io \<Rightarrow> 'a result" where
  "outcome m \<equiv> fst m"

abbreviation events :: "'a io \<Rightarrow> event list" where
  "events m \<equiv> snd m"

definition ret :: "'a \<Rightarrow> 'a io" where
  "ret x = (Return x, [])"

text \<open>Statements in sequence: what follows runs only if what precedes returned.\<close>

definition and_then :: "'a io \<Rightarrow> ('a \<Rightarrow> 'b io) \<Rightarrow> 'b io" where
  "and_then m f =
     (case outcome m of
        Return x \<Rightarrow> (outcome (f x), events m @ events (f x))
      | Throw e \<Rightarrow> (Throw e, events m)
      | Exited n \<Rightarrow> (Exited n, events m))"

definition throw :: "error \<Rightarrow> 'a io" where
  "throw e = (Throw e, [])"

definition process_exit :: "nat \<Rightarrow> 'a io" where
  "process_exit n = (Exited n, [])"

definition console_error :: "string \<Rightarrow> unit io" where
  "console_error s = (Return (), [ConsoleError s])"

definition console_error_with :: "string \<Rightarrow> error \<Rightarrow> unit io" where
  "console_error_with s e = (Return (), [ConsoleErrorWith s e])"

definition stdout_write :: "buffer \<Rightarrow> unit io" where
  "stdout_write b = (Return (), [StdoutWrite b])"

text \<open>\<^verbatim>\<open>await engine.call(...)\<close>: the call is made; a rejection is thrown.\<close>

definition await :: "engine \<Rightarrow> call \<Rightarrow> 'a \<Rightarrow> 'a io" where
  "await eng c r =
     (case rejects eng c of
        Some e \<Rightarrow> (Throw e, [Call c])
      | None \<Rightarrow> (Return r, [Call c]))"

text \<open>
  A call whose promise is dropped: it is made, and the statement itself goes on whatever
  becomes of the promise. What a rejection of the dropped promise does to the process is
  the runtime's doing, \<open>runtime\<close> below.
\<close>

definition no_await :: "call \<Rightarrow> unit io" where
  "no_await c = (Return (), [Call c])"

text \<open>A pure computation that may throw.\<close>

definition lift :: "error + 'a \<Rightarrow> 'a io" where
  "lift r = (case r of Inl e \<Rightarrow> throw e | Inr x \<Rightarrow> ret x)"

section \<open>The helpers of \<^verbatim>\<open>src/index.js\<close>\<close>

definition buildLaunchOptions :: "'a common_argv_scheme \<Rightarrow> string list" where
  "buildLaunchOptions argv =
     (if sandbox argv = False then [''--no-sandbox'', ''--disable-setuid-sandbox''] else [])"

definition buildNavigationOptions :: "'a common_argv_scheme \<Rightarrow> navigation_options" where
  "buildNavigationOptions argv = \<lparr>nav_timeout = timeout argv, nav_waitUntil = waitUntil argv\<rparr>"

text \<open>\<^verbatim>\<open>String.prototype.indexOf\<close> for a one-character needle: \<open>-1\<close> when absent.\<close>

fun indexOf :: "string \<Rightarrow> char \<Rightarrow> int" where
  "indexOf [] c = - 1"
| "indexOf (x # xs) c =
     (if x = c then 0 else (let i = indexOf xs c in if i = - 1 then - 1 else i + 1))"

text \<open>\<^verbatim>\<open>s.substr(start, len)\<close> and \<^verbatim>\<open>s.substr(start)\<close> for \<open>start, len \<ge> 0\<close>.\<close>

definition substr :: "string \<Rightarrow> int \<Rightarrow> int \<Rightarrow> string" where
  "substr s start len = take (nat len) (drop (nat start) s)"

definition substr_from :: "string \<Rightarrow> int \<Rightarrow> string" where
  "substr_from s start = drop (nat start) s"

text \<open>
  The spread \<^verbatim>\<open>[...cookie]\<close>: an array is copied; a string is iterated, which gives
  its characters one by one, each as a string of its own; \<^verbatim>\<open>undefined\<close> cannot be
  iterated.
\<close>

fun spread :: "cookie_arg \<Rightarrow> error + string list" where
  "spread (CookieArray xs) = Inr xs"
| "spread (CookieString s) = Inr (map (\<lambda>c. [c]) s)"
| "spread CookieUndefined = Inl (TypeError ''cookie is not iterable'')"

text \<open>The callback of \<^verbatim>\<open>map\<close> in \<^verbatim>\<open>buildCookies\<close>.\<close>

definition cookie_of :: "positional \<Rightarrow> string \<Rightarrow> error + cookie" where
  "cookie_of u cookieString =
     (let delimiterOffset = indexOf cookieString CHR '':'' in
      if delimiterOffset = - 1 then Inl (Error ''cookie must contain : delimiter'')
      else
        let name = substr cookieString 0 delimiterOffset;
            val = substr_from cookieString (delimiterOffset + 1)
        in Inr \<lparr>c_name = name, c_value = val, c_url = u\<rparr>)"

text \<open>\<^verbatim>\<open>Array.prototype.map\<close> with a callback that may throw: the first throw ends it.\<close>

fun map_throwing :: "('a \<Rightarrow> error + 'b) \<Rightarrow> 'a list \<Rightarrow> error + 'b list" where
  "map_throwing f [] = Inr []"
| "map_throwing f (x # xs) =
     (case f x of
        Inl e \<Rightarrow> Inl e
      | Inr y \<Rightarrow> (case map_throwing f xs of Inl e \<Rightarrow> Inl e | Inr ys \<Rightarrow> Inr (y # ys)))"

definition buildCookies :: "'a common_argv_scheme \<Rightarrow> error + cookie list" where
  "buildCookies argv =
     (case spread (cookie argv) of
        Inl e \<Rightarrow> Inl e
      | Inr cookieStrings \<Rightarrow> map_throwing (cookie_of (url argv)) cookieStrings)"

text \<open>
  Truthiness, as the \<^verbatim>\<open>if (...)\<close>, \<^verbatim>\<open>!\<close> and \<^verbatim>\<open>||\<close> of the source test it: of
  strings the empty one is falsy, of numbers zero is, \<^verbatim>\<open>undefined\<close> is, an array is
  not.
\<close>

fun truthy_cookie :: "cookie_arg \<Rightarrow> bool" where
  "truthy_cookie CookieUndefined = False"
| "truthy_cookie (CookieString s) = (s \<noteq> [])"
| "truthy_cookie (CookieArray xs) = True"

fun truthy :: "positional \<Rightarrow> bool" where
  "truthy (Str s) = (s \<noteq> [])"
| "truthy (Num n) = (n \<noteq> 0)"

fun truthy_opt :: "positional option \<Rightarrow> bool" where
  "truthy_opt None = False"
| "truthy_opt (Some p) = truthy p"

text \<open>\<^verbatim>\<open>argv.output || null\<close>, and \<^verbatim>\<open>argv.output || 'STDOUT'\<close> inside a template.\<close>

definition or_null :: "positional option \<Rightarrow> positional option" where
  "or_null x = (if truthy_opt x then x else None)"

definition or_else :: "libs \<Rightarrow> positional option \<Rightarrow> string \<Rightarrow> string" where
  "or_else lib x d =
     (case x of
        Some (Str s) \<Rightarrow> (if s \<noteq> [] then s else d)
      | Some (Num n) \<Rightarrow> (if n \<noteq> 0 then numberToString lib n else d)
      | None \<Rightarrow> d)"

subsection \<open>The package \<^verbatim>\<open>file-url\<close>\<close>

text \<open>
  Modelled from the spec: the package \<^verbatim>\<open>file-url\<close>, which the program calls at lines
  128 and 189, is not under \<^verbatim>\<open>src/\<close>. Section 4.1 of the specification has it convert
  a filesystem path into an equivalent \<^verbatim>\<open>file://\<close> address, resolving a relative path
  against the current working directory and percent-encoding the characters that are
  unsafe in a URL. The model is for a POSIX system. Resolving is what \<^verbatim>\<open>path.resolve\<close>
  does: a path that does not start with a slash is put behind the working directory,
  empty segments and \<^verbatim>\<open>.\<close> are dropped, and \<^verbatim>\<open>..\<close> takes the segment before it
  away. Encoding is what \<^verbatim>\<open>encodeURI\<close> does, with \<^verbatim>\<open>?\<close> and \<^verbatim>\<open>#\<close> encoded as
  well: letters, digits and the marks of \<open>uri_unescaped\<close> stay, every other byte
  becomes \<^verbatim>\<open>%\<close> and two upper-case hexadecimal digits. A backslash is turned into a
  slash before.
\<close>

fun split_on :: "char \<Rightarrow> string \<Rightarrow> string list" where
  "split_on c [] = [[]]"
| "split_on c (x # xs) =
     (if x = c then [] # split_on c xs
      else (case split_on c xs of s # ss \<Rightarrow> (x # s) # ss | [] \<Rightarrow> [[x]]))"

fun normalize_segments :: "string list \<Rightarrow> string list \<Rightarrow> string list" where
  "normalize_segments kept [] = rev kept"
| "normalize_segments kept (s # ss) =
     (if s = [] \<or> s = ''.'' then normalize_segments kept ss
      else if s = ''..'' then normalize_segments (tl kept) ss
      else normalize_segments (s # kept) ss)"

fun join :: "string \<Rightarrow> string list \<Rightarrow> string" where
  "join sep [] = []"
| "join sep [s] = s"
| "join sep (s # t # ss) = s @ sep @ join sep (t # ss)"

definition path_resolve :: "string \<Rightarrow> string \<Rightarrow> string" where
  "path_resolve dir p =
     (let full = (if take 1 p = ''/'' then p else dir @ ''/'' @ p)
      in CHR ''/'' # join ''/'' (normalize_segments [] (split_on CHR ''/'' full)))"

definition uri_unescaped :: "char \<Rightarrow> bool" where
  "uri_unescaped c =
     (c \<in> set ''ABCDEFGHIJKLMNOPQRSTUVWXYZabcdefghijklmnopqrstuvwxyz0123456789;,/:@&=+$-_.!~*()''
      \<or> c = CHR 0x27)"

definition hex_digit :: "nat \<Rightarrow> char" where
  "hex_digit n = ''0123456789ABCDEF'' ! n"

definition percent_encoded :: "char \<Rightarrow> string" where
  "percent_encoded c =
     [CHR ''%'', hex_digit (of_char c div 16), hex_digit (of_char c mod 16)]"

definition encode_uri :: "string \<Rightarrow> string" where
  "encode_uri s = concat (map (\<lambda>c. if uri_unescaped c then [c] else percent_encoded c) s)"

text \<open>
  Modelled from the spec: \<^verbatim>\<open>fileUrl(path)\<close> of the package \<^verbatim>\<open>file-url\<close>, with the
  working directory of the process as its first argument.
\<close>

definition fileUrl :: "string \<Rightarrow> string \<Rightarrow> string" where
  "fileUrl dir p =
     ''file://'' @ encode_uri (map (\<lambda>c. if c = CHR 0x5C then CHR ''/'' else c) (path_resolve dir p))"

text \<open>Reading a percent-encoded string back.\<close>

definition hex_value :: "char \<Rightarrow> nat" where
  "hex_value c = length (takeWhile (\<lambda>d. d \<noteq> c) ''0123456789ABCDEF'')"

fun decode_uri :: "string \<Rightarrow> string" where
  "decode_uri (a # b # c # s) =
     (if a = CHR ''%'' then char_of (16 * hex_value b + hex_value c) # decode_uri s
      else a # decode_uri (b # c # s))"
| "decode_uri s = s"

subsection \<open>Target resolution\<close>

text \<open>
  The target address, lines 128 and 189:
  \<^verbatim>\<open>isUrl(argv.url) ? parseUrl(argv.url).toString() : fileUrl(argv.url)\<close>. Handed a
  number, \<^verbatim>\<open>isUrl\<close> answers no and \<^verbatim>\<open>fileUrl\<close> throws a \<^verbatim>\<open>TypeError\<close>.
\<close>

fun target_address :: "libs \<Rightarrow> positional \<Rightarrow> error + string" where
  "target_address lib (Str s) =
     Inr (if isUrl lib s then parseUrl lib s else fileUrl (cwd lib) s)"
| "target_address lib (Num n) = Inl (TypeError ''Expected a string, got number'')"

subsection \<open>The viewport\<close>

text \<open>The regular expression of line 192, \<^verbatim>\<open>/^(?<width>\d+)[xX](?<height>\d+)$/\<close>.\<close>

definition is_digit :: "char \<Rightarrow> bool" where
  "is_digit c = (c \<in> set ''0123456789'')"

definition viewport_match :: "string \<Rightarrow> (string \<times> string) option" where
  "viewport_match s =
     (let w = takeWhile is_digit s; r = dropWhile is_digit s in
      case r of
        [] \<Rightarrow> None
      | c # h \<Rightarrow>
          if w \<noteq> [] \<and> (c = CHR ''x'' \<or> c = CHR ''X'') \<and> h \<noteq> [] \<and> list_all is_digit h
          then Some (w, h) else None)"

text \<open>
  \<^verbatim>\<open>parseInt\<close> on a string of decimal digits. The digits denote a whole number; the
  result is a JavaScript number, a double: the number itself when it is below \<open>2 ^ 53\<close>,
  else the nearest number with 53 significant bits, the even one of two equally near, and
  \<^verbatim>\<open>Infinity\<close> from \<open>2 ^ 1024\<close> on. \<open>excess n\<close> is the number of low bits of
  \<open>n\<close> that 53 bits cannot hold.
\<close>

definition digit_value :: "char \<Rightarrow> int" where
  "digit_value c = int (of_char c) - 48"

definition decimal :: "string \<Rightarrow> int" where
  "decimal s = foldl (\<lambda>n c. 10 * n + digit_value c) 0 s"

function excess :: "int \<Rightarrow> nat" where
  "excess n = (if n < 2 ^ 53 then 0 else Suc (excess (n div 2)))"
  by pat_completeness auto

termination excess
  by (relation "measure nat") auto

definition to_double :: "int \<Rightarrow> pixels" where
  "to_double n =
     (let sh = excess n in
      if sh = 0 then Pixels n
      else
        let q = n div 2 ^ sh;
            r = n mod 2 ^ sh;
            half = 2 ^ (sh - 1);
            q' = (if half < r \<or> (r = half \<and> odd q) then q + 1 else q);
            v = q' * 2 ^ sh
        in if 2 ^ 1024 \<le> v then PixelsInfinity else Pixels v)"

definition parseInt :: "string \<Rightarrow> pixels" where
  "parseInt s = to_double (decimal s)"

subsection \<open>Scripts\<close>

text \<open>The function evaluated in the page at lines 148 to 153.\<close>

record scripts =
  scriptBefore :: string
  scriptAfter :: string

definition read_scripts :: "(string \<Rightarrow> string option) \<Rightarrow> scripts" where
  "read_scripts querySelector =
     \<lparr>scriptBefore = (case querySelector ''script#before'' of Some txt \<Rightarrow> txt | None \<Rightarrow> ''''),
      scriptAfter = (case querySelector ''script#after'' of Some txt \<Rightarrow> txt | None \<Rightarrow> '''')\<rparr>"

definition height_expression :: string where
  "height_expression = ''Math.max(document.body.scrollHeight, document.body.offsetHeight, document.documentElement.clientHeight, document.documentElement.scrollHeight, document.documentElement.offsetHeight)''"

section \<open>The two commands\<close>

text \<open>
  The optional steps of the two commands, each an \<^verbatim>\<open>if\<close> statement of the source.
  Lines 130 to 133 of \<^verbatim>\<open>print\<close> and 207 to 210 of \<^verbatim>\<open>screenshot\<close>:
\<close>

definition set_cookies :: "engine \<Rightarrow> 'a common_argv_scheme \<Rightarrow> unit io" where
  "set_cookies eng argv =
     (if truthy_cookie (cookie argv)
      then and_then (console_error ''Setting cookies'') (\<lambda>_.
           and_then (lift (buildCookies argv)) (\<lambda>cookies.
           await eng (SetCookie cookies) ()))
      else ret ())"

text \<open>
  Lines 140 to 145: \<^verbatim>\<open>height\<close> and \<^verbatim>\<open>width\<close>, undefined unless the format is auto.
  The comparison is \<^verbatim>\<open>==\<close>, which no number passes against \<^verbatim>\<open>'auto'\<close>.
\<close>

definition measure_page :: "engine \<Rightarrow> print_argv \<Rightarrow> (jsvalue option \<times> jsvalue option) io" where
  "measure_page eng argv =
     (if format argv = Str ''auto''
      then and_then (await eng (Evaluate height_expression)
                       (evaluate_result eng height_expression)) (\<lambda>height.
           ret (Some height, Some (JSString ''1366'')))
      else ret (None, None))"

text \<open>Lines 147 to 155.\<close>

definition inject_scripts :: "engine \<Rightarrow> print_argv \<Rightarrow> unit io" where
  "inject_scripts eng argv =
     (if injectJs argv \<noteq> []
      then and_then (await eng EvaluateFunction (read_scripts (document eng))) (\<lambda>s.
           await eng (Evaluate (scriptBefore s @ '';'' @ injectJs argv @ '';'' @ scriptAfter s)) ())
      else ret ())"

text \<open>Lines 157 to 159.\<close>

definition emulate_media :: "engine \<Rightarrow> print_argv \<Rightarrow> unit io" where
  "emulate_media eng argv =
     (if emulateMedia argv \<noteq> []
      then await eng (EmulateMedia (emulateMedia argv)) ()
      else ret ())"

text \<open>Lines 178 to 180 and 222 to 224.\<close>

definition write_stdout :: "'a common_argv_scheme \<Rightarrow> buffer \<Rightarrow> unit io" where
  "write_stdout argv buffer =
     (if \<not> truthy_opt (output_arg argv) then stdout_write buffer else ret ())"

text \<open>
  Lines 191 to 205. An array, which a repeated \<^verbatim>\<open>--viewport\<close> gives, has no method
  \<^verbatim>\<open>match\<close>.
\<close>

definition set_viewport :: "engine \<Rightarrow> screenshot_argv \<Rightarrow> unit io" where
  "set_viewport eng argv =
     (case viewport argv of
        ViewportUndefined \<Rightarrow> ret ()
      | ViewportArray vs \<Rightarrow> throw (TypeError ''argv.viewport.match is not a function'')
      | ViewportString v \<Rightarrow>
          if v = [] then ret ()
          else (case viewport_match v of
                  None \<Rightarrow>
                    and_then (console_error
                      ''Option --viewport must be in the format ###x### e.g. 800x600'') (\<lambda>_.
                    process_exit 1)
                | Some (width, height) \<Rightarrow>
                    and_then (console_error
                      (''Setting viewport to '' @ width @ ''x'' @ height)) (\<lambda>_.
                    await eng (SetViewport (parseInt width) (parseInt height)) ())))"

text \<open>The options object of \<^verbatim>\<open>page.pdf\<close>, lines 160 to 176.\<close>

definition pdf_options_of ::
  "print_argv \<Rightarrow> jsvalue option \<Rightarrow> jsvalue option \<Rightarrow> pdf_options" where
  "pdf_options_of argv width height =
     \<lparr>pdf_path = or_null (output_arg argv),
      pdf_format = (if format argv = Str ''auto'' then None else Some (format argv)),
      pdf_width = width, pdf_height = height,
      pdf_scale = scale argv,
      pdf_landscape = landscape argv,
      pdf_printBackground = background argv,
      pdf_margin = \<lparr>m_top = marginTop argv, m_right = marginRight argv,
                    m_bottom = marginBottom argv, m_left = marginLeft argv\<rparr>,
      pdf_displayHeaderFooter = displayHeaderFooter argv,
      pdf_headerTemplate = headerTemplate argv,
      pdf_footerTemplate = footerTemplate argv\<rparr>"

definition print :: "libs \<Rightarrow> engine \<Rightarrow> print_argv \<Rightarrow> unit io" where
  "print lib eng argv =
     and_then (await eng (Launch (buildLaunchOptions argv)) ()) (\<lambda>browser.
     and_then (await eng NewPage ()) (\<lambda>page.
     and_then (no_await (SetJavaScriptEnabled False)) (\<lambda>_.
     and_then (lift (target_address lib (url argv))) (\<lambda>target.
     and_then (set_cookies eng argv) (\<lambda>_.
     and_then (console_error (''Loading '' @ target)) (\<lambda>_.
     and_then (await eng (Goto target (buildNavigationOptions argv)) ()) (\<lambda>_.
     and_then (console_error (''Writing '' @ or_else lib (output_arg argv) ''STDOUT'')) (\<lambda>_.
     and_then (measure_page eng argv) (\<lambda>(height, width).
     and_then (inject_scripts eng argv) (\<lambda>_.
     and_then (emulate_media eng argv) (\<lambda>_.
     let opts = pdf_options_of argv width height in
     and_then (await eng (Pdf opts) (pdf_result eng opts)) (\<lambda>buffer.
     and_then (write_stdout argv buffer) (\<lambda>_.
     and_then (console_error ''Done'') (\<lambda>_.
     await eng Close ()))))))))))))))"

definition screenshot :: "libs \<Rightarrow> engine \<Rightarrow> screenshot_argv \<Rightarrow> unit io" where
  "screenshot lib eng argv =
     and_then (await eng (Launch (buildLaunchOptions argv)) ()) (\<lambda>browser.
     and_then (await eng NewPage ()) (\<lambda>page.
     and_then (lift (target_address lib (url argv))) (\<lambda>target.
     and_then (set_viewport eng argv) (\<lambda>_.
     and_then (set_cookies eng argv) (\<lambda>_.
     and_then (console_error (''Loading '' @ target)) (\<lambda>_.
     and_then (await eng (Goto target (buildNavigationOptions argv)) ()) (\<lambda>_.
     and_then (console_error (''Writing '' @ or_else lib (output_arg argv) ''STDOUT'')) (\<lambda>_.
     let opts = \<lparr>shot_path = or_null (output_arg argv),
                 shot_fullPage = fullPage argv,
                 shot_omitBackground = omitBackground argv\<rparr> in
     and_then (await eng (Screenshot opts) (screenshot_result eng opts)) (\<lambda>buffer.
     and_then (write_stdout argv buffer) (\<lambda>_.
     and_then (console_error ''Done'') (\<lambda>_.
     await eng Close ())))))))))))"

text \<open>
  The handlers of lines 85 to 92 and 111 to 118: a thrown error is printed after a fixed
  label and the process exits with status 1.
\<close>

definition handle :: "string \<Rightarrow> unit io \<Rightarrow> unit io" where
  "handle label body =
     (case outcome body of
        Throw err \<Rightarrow>
          (let catch = and_then (console_error_with label err) (\<lambda>_. process_exit 1)
           in (outcome catch, events body @ events catch))
      | _ \<Rightarrow> body)"

subsection \<open>A rejection that nothing handles\<close>

text \<open>
  The promise of \<^verbatim>\<open>page.setJavaScriptEnabled(false)\<close>, line 127, is neither awaited nor
  given a handler. If the engine rejects that call, no \<^verbatim>\<open>catch\<close> of the program sees
  it: from Node.js 15 on the runtime reports the error and ends the process with status
  1. It can do so only while the program waits, that is during an awaited call made
  after the dropped one, or when the program has come to its end without exiting by
  itself. During which awaited call is a matter of timing, \<open>noticed_after\<close>; a
  \<^verbatim>\<open>process.exit\<close> that the program reaches before is final.
\<close>

fun awaited :: "call \<Rightarrow> bool" where
  "awaited (SetJavaScriptEnabled b) = False"
| "awaited _ = True"

fun dropped :: "engine \<Rightarrow> event \<Rightarrow> error option" where
  "dropped eng (Call c) = (if awaited c then None else rejects eng c)"
| "dropped eng _ = None"

text \<open>The events up to and including the awaited call after \<open>k\<close> others, if there is one.\<close>

fun cut_after :: "nat \<Rightarrow> event list \<Rightarrow> event list option" where
  "cut_after k [] = None"
| "cut_after k (Call c # t) =
     (if awaited c
      then (case k of
              0 \<Rightarrow> Some [Call c]
            | Suc j \<Rightarrow> map_option (\<lambda>t'. Call c # t') (cut_after j t))
      else map_option (\<lambda>t'. Call c # t') (cut_after k t))"
| "cut_after k (ev # t) = map_option (\<lambda>t'. ev # t') (cut_after k t)"

text \<open>
  The first rejected call with a dropped promise: its error, the events up to and
  including the call, and the events after it.
\<close>

fun doom :: "engine \<Rightarrow> event list \<Rightarrow> (error \<times> event list \<times> event list) option" where
  "doom eng [] = None"
| "doom eng (ev # t) =
     (case dropped eng ev of
        Some e \<Rightarrow> Some (e, [ev], t)
      | None \<Rightarrow> map_option (\<lambda>(e, before, after). (e, ev # before, after)) (doom eng t))"

definition runtime :: "engine \<Rightarrow> unit io \<Rightarrow> unit io" where
  "runtime eng m =
     (case doom eng (events m) of
        None \<Rightarrow> m
      | Some (e, before, after) \<Rightarrow>
          (case cut_after (noticed_after eng) after of
             Some seen \<Rightarrow> (Exited 1, before @ seen @ [UncaughtError e])
           | None \<Rightarrow>
               (case outcome m of
                  Return x \<Rightarrow> (Exited 1, events m @ [UncaughtError e])
                | _ \<Rightarrow> m)))"

text \<open>A command as the process runs it. A run that returns ends with status 0.\<close>

definition print_handler :: "libs \<Rightarrow> engine \<Rightarrow> print_argv \<Rightarrow> unit io" where
  "print_handler lib eng argv =
     runtime eng (handle ''Failed to generate pdf:'' (print lib eng argv))"

definition screenshot_handler :: "libs \<Rightarrow> engine \<Rightarrow> screenshot_argv \<Rightarrow> unit io" where
  "screenshot_handler lib eng argv =
     runtime eng (handle ''Failed to take screenshot:'' (screenshot lib eng argv))"

definition exit_status :: "'a result \<Rightarrow> nat" where
  "exit_status r = (case r of Exited n \<Rightarrow> n | _ \<Rightarrow> 0)"

section \<open>Reading a run\<close>

text \<open>The addresses navigated to, in order.\<close>

fun gotos :: "event list \<Rightarrow> string list" where
  "gotos [] = []"
| "gotos (Call (Goto u opts) # t) = u # gotos t"
| "gotos (_ # t) = gotos t"

text \<open>The cookie lists handed to \<^verbatim>\<open>page.setCookie\<close>.\<close>

fun cookie_calls :: "event list \<Rightarrow> cookie list list" where
  "cookie_calls [] = []"
| "cookie_calls (Call (SetCookie cs) # t) = cs # cookie_calls t"
| "cookie_calls (_ # t) = cookie_calls t"

text \<open>The option objects handed to \<^verbatim>\<open>page.pdf\<close> and to \<^verbatim>\<open>page.screenshot\<close>.\<close>

fun pdf_calls :: "event list \<Rightarrow> pdf_options list" where
  "pdf_calls [] = []"
| "pdf_calls (Call (Pdf opts) # t) = opts # pdf_calls t"
| "pdf_calls (_ # t) = pdf_calls t"

fun screenshot_calls :: "event list \<Rightarrow> screenshot_options list" where
  "screenshot_calls [] = []"
| "screenshot_calls (Call (Screenshot opts) # t) = opts # screenshot_calls t"
| "screenshot_calls (_ # t) = screenshot_calls t"

text \<open>The buffers written to the standard output stream.\<close>

fun stdout_writes :: "event list \<Rightarrow> buffer list" where
  "stdout_writes [] = []"
| "stdout_writes (StdoutWrite b # t) = b # stdout_writes t"
| "stdout_writes (_ # t) = stdout_writes t"

text \<open>
  The files the engine is asked to write: a render call given a \<^verbatim>\<open>path\<close> saves its
  result there, and saves nothing when the path is null.
\<close>

definition output_files :: "event list \<Rightarrow> positional list" where
  "output_files t =
     concat (map (\<lambda>p. case p of Some f \<Rightarrow> [f] | None \<Rightarrow> [])
       (map pdf_path (pdf_calls t) @ map shot_path (screenshot_calls t)))"

text \<open>The scripts handed as strings to \<^verbatim>\<open>page.evaluate\<close>.\<close>

fun evaluated :: "event list \<Rightarrow> string list" where
  "evaluated [] = []"
| "evaluated (Call (Evaluate s) # t) = s # evaluated t"
| "evaluated (_ # t) = evaluated t"

text \<open>The errors printed behind a label, and the errors the runtime reported.\<close>

fun labelled :: "event list \<Rightarrow> (string \<times> error) list" where
  "labelled [] = []"
| "labelled (ConsoleErrorWith l e # t) = (l, e) # labelled t"
| "labelled (_ # t) = labelled t"

fun uncaught :: "event list \<Rightarrow> error list" where
  "uncaught [] = []"
| "uncaught (UncaughtError e # t) = e # uncaught t"
| "uncaught (_ # t) = uncaught t"

text \<open>Every event a computation causes satisfies \<open>P\<close>.\<close>

definition emits :: "(event \<Rightarrow> bool) \<Rightarrow> 'a io \<Rightarrow> bool" where
  "emits P m = list_all P (events m)"

text \<open>
  The script that \<^verbatim>\<open>print\<close> evaluates for \<^verbatim>\<open>--inject-js\<close>, line 154, with the two
  texts read from the page.
\<close>

definition injected :: "engine \<Rightarrow> print_argv \<Rightarrow> string" where
  "injected eng argv =
     scriptBefore (read_scripts (document eng)) @ '';'' @ injectJs argv @ '';''
       @ scriptAfter (read_scripts (document eng))"

text \<open>What each command can cause, event by event.\<close>

fun print_event :: "libs \<Rightarrow> engine \<Rightarrow> print_argv \<Rightarrow> event \<Rightarrow> bool" where
  "print_event lib eng argv (Call (Launch args)) = (args = buildLaunchOptions argv)"
| "print_event lib eng argv (Call (Goto u opts)) =
     (target_address lib (url argv) = Inr u \<and> opts = buildNavigationOptions argv)"
| "print_event lib eng argv (Call (SetCookie cs)) = (buildCookies argv = Inr cs)"
| "print_event lib eng argv (Call (Pdf opts)) =
     (opts = pdf_options_of argv
        (if format argv = Str ''auto'' then Some (JSString ''1366'') else None)
        (if format argv = Str ''auto'' then Some (evaluate_result eng height_expression)
         else None))"
| "print_event lib eng argv (Call (Evaluate s)) =
     (format argv = Str ''auto'' \<and> s = height_expression \<or>
      injectJs argv \<noteq> [] \<and> s = injected eng argv)"
| "print_event lib eng argv (Call (EmulateMedia m)) = (m = emulateMedia argv \<and> m \<noteq> [])"
| "print_event lib eng argv (Call (SetJavaScriptEnabled b)) = (\<not> b)"
| "print_event lib eng argv (Call (SetViewport w h)) = False"
| "print_event lib eng argv (Call (Screenshot opts)) = False"
| "print_event lib eng argv (StdoutWrite b) = (\<not> truthy_opt (output_arg argv))"
| "print_event lib eng argv (UncaughtError e) = False"
| "print_event lib eng argv _ = True"

fun screenshot_event :: "libs \<Rightarrow> engine \<Rightarrow> screenshot_argv \<Rightarrow> event \<Rightarrow> bool" where
  "screenshot_event lib eng argv (Call (Launch args)) = (args = buildLaunchOptions argv)"
| "screenshot_event lib eng argv (Call (Goto u opts)) =
     (target_address lib (url argv) = Inr u \<and> opts = buildNavigationOptions argv)"
| "screenshot_event lib eng argv (Call (SetCookie cs)) = (buildCookies argv = Inr cs)"
| "screenshot_event lib eng argv (Call (Screenshot opts)) =
     (opts = \<lparr>shot_path = or_null (output_arg argv), shot_fullPage = fullPage argv,
              shot_omitBackground = omitBackground argv\<rparr>)"
| "screenshot_event lib eng argv (Call (SetViewport w h)) =
     (case viewport argv of
        ViewportString v \<Rightarrow> v \<noteq> [] \<and>
          (case viewport_match v of
             None \<Rightarrow> False
           | Some (a, b) \<Rightarrow> w = parseInt a \<and> h = parseInt b)
      | _ \<Rightarrow> False)"
| "screenshot_event lib eng argv (Call (Evaluate s)) = False"
| "screenshot_event lib eng argv (Call EvaluateFunction) = False"
| "screenshot_event lib eng argv (Call (EmulateMedia m)) = False"
| "screenshot_event lib eng argv (Call (SetJavaScriptEnabled b)) = False"
| "screenshot_event lib eng argv (Call (Pdf opts)) = False"
| "screenshot_event lib eng argv (StdoutWrite b) = (\<not> truthy_opt (output_arg argv))"
| "screenshot_event lib eng argv (UncaughtError e) = False"
| "screenshot_event lib eng argv _ = True"

text \<open>
  Errors of awaited calls are neither retried nor swallowed: every call whose promise is
  awaited, except possibly the last event, succeeded; and when the last event is an
  awaited call that the engine rejected, the computation throws that very error.
\<close>

fun call_ok :: "engine \<Rightarrow> event \<Rightarrow> bool" where
  "call_ok eng (Call c) = (awaited c \<longrightarrow> rejects eng c = None)"
| "call_ok eng _ = True"

fun last_ok :: "engine \<Rightarrow> 'a result \<Rightarrow> event \<Rightarrow> bool" where
  "last_ok eng r (Call c) =
     (awaited c \<longrightarrow> (case rejects eng c of None \<Rightarrow> True | Some e \<Rightarrow> r = Throw e))"
| "last_ok eng r _ = True"

definition settled :: "engine \<Rightarrow> 'a io \<Rightarrow> bool" where
  "settled eng m =
     (list_all (call_ok eng) (butlast (events m)) \<and>
      (events m = [] \<or> last_ok eng (outcome m) (last (events m))))"

text \<open>The strings given with \<^verbatim>\<open>--cookie\<close> on the command line.\<close>

fun supplied :: "cookie_arg \<Rightarrow> string list" where
  "supplied CookieUndefined = []"
| "supplied (CookieString s) = [s]"
| "supplied (CookieArray xs) = xs"


section \<open>Inputs for the examples\<close>

text \<open>
  The options with the defaults that the two builders declare, lines 10 to 110, for a
  positional argument that is delivered as a string.
\<close>

definition print_defaults :: "string \<Rightarrow> print_argv" where
  "print_defaults u =
     \<lparr>url = Str u, output_arg = None, sandbox = True, timeout = 30000, waitUntil = ''load'',
      cookie = CookieUndefined,
      emulateMedia = '''', injectJs = '''', scale = 1, background = True,
      marginTop = Str ''6.25mm'', marginRight = Str ''6.25mm'',
      marginBottom = Str ''14.11mm'', marginLeft = Str ''6.25mm'', format = Str ''Letter'',
      landscape = False,
      displayHeaderFooter = False, headerTemplate = '''', footerTemplate = ''''\<rparr>"

definition screenshot_defaults :: "string \<Rightarrow> screenshot_argv" where
  "screenshot_defaults u =
     \<lparr>url = Str u, output_arg = None, sandbox = True, timeout = 30000, waitUntil = ''load'',
      cookie = CookieUndefined,
      fullPage = True, omitBackground = False, viewport = ViewportUndefined\<rparr>"

text \<open>
  A stand-in for the two packages, agreeing with them on the inputs of the examples: a
  string is taken for a URL when it starts with \<^verbatim>\<open>http://\<close> or \<^verbatim>\<open>https://\<close> in any
  letter case; the URL parser gives back scheme and host in lower case and leaves the
  rest. The working directory is \<^verbatim>\<open>/home/user\<close>, and a whole number from zero on is
  written in decimal digits.
\<close>

definition lower :: "char \<Rightarrow> char" where
  "lower c =
     (case map_of (zip ''ABCDEFGHIJKLMNOPQRSTUVWXYZ'' ''abcdefghijklmnopqrstuvwxyz'') c of
        Some d \<Rightarrow> d
      | None \<Rightarrow> c)"

fun digits_of :: "nat \<Rightarrow> string" where
  "digits_of n =
     (if n < 10 then [char_of (48 + n)] else digits_of (n div 10) @ [char_of (48 + n mod 10)])"

definition sample_libs :: libs where
  "sample_libs =
     \<lparr>isUrl = (\<lambda>s. take 7 (map lower s) = ''http://'' \<or> take 8 (map lower s) = ''https://''),
      parseUrl = (\<lambda>s. let n = 8 + length (takeWhile (\<lambda>c. c \<noteq> CHR ''/'') (drop 8 s))
                       in map lower (take n s) @ drop n s),
      cwd = ''/home/user'',
      numberToString = (\<lambda>n. digits_of (nat \<lfloor>n\<rfloor>))\<rparr>"

text \<open>
  An engine on which every call succeeds, one whose navigation fails, and one that
  rejects the call switching JavaScript off. The page is 2000 units high and holds a
  \<^verbatim>\<open>script#before\<close> element only. The runtime acts on a rejection that nothing
  handles as soon as the program waits.
\<close>

definition sample_engine :: engine where
  "sample_engine =
     \<lparr>rejects = (\<lambda>c. None),
      evaluate_result = (\<lambda>s. if s = height_expression then JSNumber 2000 else JSUndefined),
      document = (\<lambda>sel. if sel = ''script#before'' then Some ''var a = 1'' else None),
      pdf_result = (\<lambda>opts. [37, 80, 68, 70]),
      screenshot_result = (\<lambda>opts. [137, 80, 78, 71]),
      noticed_after = 0\<rparr>"



section \<open>Outcome and events of the building blocks\<close>

lemma outcome_and_then:
  "outcome (and_then m f) =
     (case outcome m of Return x \<Rightarrow> outcome (f x) | Throw e \<Rightarrow> Throw e | Exited n \<Rightarrow> Exited n)"
  by (simp add: and_then_def split: result.split)

lemma events_and_then:
  "events (and_then m f) =
     events m @ (case outcome m of Return x \<Rightarrow> events (f x) | _ \<Rightarrow> [])"
  by (simp add: and_then_def split: result.split)

lemma prim_outcome [simp]:
  "outcome (ret x) = Return x"
  "outcome (throw e) = Throw e"
  "outcome (process_exit n) = Exited n"
  "outcome (console_error s) = Return ()"
  "outcome (console_error_with s e) = Return ()"
  "outcome (stdout_write b) = Return ()"
  "outcome (no_await c) = Return ()"
  "outcome (await eng c r) = (case rejects eng c of Some e \<Rightarrow> Throw e | None \<Rightarrow> Return r)"
  "outcome (lift v) = (case v of Inl e \<Rightarrow> Throw e | Inr x \<Rightarrow> Return x)"
  by (simp_all add: ret_def throw_def process_exit_def console_error_def console_error_with_def
      stdout_write_def no_await_def await_def lift_def split: option.split sum.split)

lemma prim_events [simp]:
  "events (ret x) = []"
  "events (throw e) = []"
  "events (process_exit n) = []"
  "events (console_error s) = [ConsoleError s]"
  "events (console_error_with s e) = [ConsoleErrorWith s e]"
  "events (stdout_write b) = [StdoutWrite b]"
  "events (no_await c) = [Call c]"
  "events (await eng c r) = [Call c]"
  "events (lift v) = []"
  by (simp_all add: ret_def throw_def process_exit_def console_error_def console_error_with_def
      stdout_write_def no_await_def await_def lift_def split: option.split sum.split)

lemma await_returns: "outcome (await eng c r) = Return x \<Longrightarrow> x = r \<and> rejects eng c = None"
  by (simp split: option.splits)

lemma lift_returns: "outcome (lift v) = Return x \<Longrightarrow> v = Inr x"
  by (simp split: sum.splits)

lemma measure_page_returns:
  "outcome (measure_page eng argv) = Return (h, w) \<Longrightarrow>
     (if format argv = Str ''auto''
      then h = Some (evaluate_result eng height_expression) \<and> w = Some (JSString ''1366'')
      else h = None \<and> w = None)"
  unfolding measure_page_def
  by (auto simp: outcome_and_then split: if_splits option.splits)

subsection \<open>Properties of every event\<close>

lemma emits_prim [simp]:
  "emits P (ret x)"
  "emits P (throw e)"
  "emits P (process_exit n)"
  "emits P (lift v)"
  "emits P (console_error s) = P (ConsoleError s)"
  "emits P (console_error_with s e) = P (ConsoleErrorWith s e)"
  "emits P (stdout_write b) = P (StdoutWrite b)"
  "emits P (no_await c) = P (Call c)"
  "emits P (await eng c r) = P (Call c)"
  by (simp_all add: emits_def)

lemma emits_and_then:
  assumes "emits P m" and "\<And>x. outcome m = Return x \<Longrightarrow> emits P (f x)"
  shows "emits P (and_then m f)"
  using assms by (auto simp: emits_def events_and_then split: result.split)

lemma emitsD: "emits P m \<Longrightarrow> e \<in> set (events m) \<Longrightarrow> P e"
  by (simp add: emits_def list_all_iff)

lemma emits_set_cookies:
  assumes "P (ConsoleError ''Setting cookies'')"
    and "\<And>cs. buildCookies argv = Inr cs \<Longrightarrow> P (Call (SetCookie cs))"
  shows "emits P (set_cookies eng argv)"
  unfolding set_cookies_def using assms
  by (auto intro!: emits_and_then split: sum.splits)

lemma emits_measure_page:
  assumes "format argv = Str ''auto'' \<Longrightarrow> P (Call (Evaluate height_expression))"
  shows "emits P (measure_page eng argv)"
  unfolding measure_page_def using assms
  by (auto intro!: emits_and_then)

lemma emits_inject_scripts:
  assumes "injectJs argv \<noteq> [] \<Longrightarrow> P (Call EvaluateFunction)"
    and "injectJs argv \<noteq> [] \<Longrightarrow> P (Call (Evaluate (injected eng argv)))"
  shows "emits P (inject_scripts eng argv)"
  unfolding inject_scripts_def using assms
  by (auto intro!: emits_and_then dest!: await_returns simp: injected_def)

lemma emits_emulate_media:
  assumes "emulateMedia argv \<noteq> [] \<Longrightarrow> P (Call (EmulateMedia (emulateMedia argv)))"
  shows "emits P (emulate_media eng argv)"
  unfolding emulate_media_def using assms by auto

lemma emits_write_stdout:
  assumes "\<not> truthy_opt (output_arg argv) \<Longrightarrow> P (StdoutWrite b)"
  shows "emits P (write_stdout argv b)"
  unfolding write_stdout_def using assms by auto

lemma emits_set_viewport:
  assumes "P (ConsoleError ''Option --viewport must be in the format ###x### e.g. 800x600'')"
    and "\<And>v w h. viewport argv = ViewportString v \<Longrightarrow> v \<noteq> [] \<Longrightarrow>
           viewport_match v = Some (w, h) \<Longrightarrow>
           P (ConsoleError (''Setting viewport to '' @ w @ ''x'' @ h)) \<and>
           P (Call (SetViewport (parseInt w) (parseInt h)))"
  shows "emits P (set_viewport eng argv)"
  unfolding set_viewport_def using assms
  by (auto intro!: emits_and_then split: option.splits viewport_arg.splits)

lemmas emits_blocks = emits_and_then emits_set_cookies emits_measure_page emits_inject_scripts
  emits_emulate_media emits_write_stdout emits_set_viewport

lemma print_emits: "emits (print_event lib eng argv) (print lib eng argv)"
  unfolding print_def Let_def
  by (auto intro!: emits_blocks dest!: measure_page_returns await_returns lift_returns
      split: if_splits)

lemma screenshot_emits: "emits (screenshot_event lib eng argv) (screenshot lib eng argv)"
  unfolding screenshot_def Let_def
  by (auto intro!: emits_blocks dest!: await_returns lift_returns split: if_splits)

subsection \<open>Reading a run: the projections\<close>

lemma gotos_append [simp]: "gotos (a @ b) = gotos a @ gotos b"
  by (induction a rule: gotos.induct) simp_all

lemma cookie_calls_append [simp]: "cookie_calls (a @ b) = cookie_calls a @ cookie_calls b"
  by (induction a rule: cookie_calls.induct) simp_all

lemma pdf_calls_append [simp]: "pdf_calls (a @ b) = pdf_calls a @ pdf_calls b"
  by (induction a rule: pdf_calls.induct) simp_all

lemma screenshot_calls_append [simp]:
  "screenshot_calls (a @ b) = screenshot_calls a @ screenshot_calls b"
  by (induction a rule: screenshot_calls.induct) simp_all

lemma stdout_writes_append [simp]: "stdout_writes (a @ b) = stdout_writes a @ stdout_writes b"
  by (induction a rule: stdout_writes.induct) simp_all

lemma evaluated_append [simp]: "evaluated (a @ b) = evaluated a @ evaluated b"
  by (induction a rule: evaluated.induct) simp_all

lemma gotos_mem: "u \<in> set (gotos t) \<longleftrightarrow> (\<exists>opts. Call (Goto u opts) \<in> set t)"
  by (induction t rule: gotos.induct) auto

lemma cookie_calls_mem: "cs \<in> set (cookie_calls t) \<longleftrightarrow> Call (SetCookie cs) \<in> set t"
  by (induction t rule: cookie_calls.induct) auto

lemma pdf_calls_mem: "opts \<in> set (pdf_calls t) \<longleftrightarrow> Call (Pdf opts) \<in> set t"
  by (induction t rule: pdf_calls.induct) auto

lemma screenshot_calls_mem:
  "opts \<in> set (screenshot_calls t) \<longleftrightarrow> Call (Screenshot opts) \<in> set t"
  by (induction t rule: screenshot_calls.induct) auto

lemma stdout_writes_mem: "b \<in> set (stdout_writes t) \<longleftrightarrow> StdoutWrite b \<in> set t"
  by (induction t rule: stdout_writes.induct) auto

lemma evaluated_mem: "s \<in> set (evaluated t) \<longleftrightarrow> Call (Evaluate s) \<in> set t"
  by (induction t rule: evaluated.induct) auto

subsection \<open>The handlers\<close>

lemma outcome_handle:
  "outcome (handle label body) =
     (case outcome body of Throw e \<Rightarrow> Exited 1 | r \<Rightarrow> r)"
  by (simp add: handle_def and_then_def console_error_with_def process_exit_def
      split: result.split)

lemma events_handle:
  "events (handle label body) =
     events body @ (case outcome body of Throw e \<Rightarrow> [ConsoleErrorWith label e] | _ \<Rightarrow> [])"
  by (simp add: handle_def and_then_def console_error_with_def process_exit_def
      split: result.split)

lemma gotos_handle [simp]: "gotos (events (handle label body)) = gotos (events body)"
  by (simp add: events_handle split: result.split)

lemma cookie_calls_handle [simp]:
  "cookie_calls (events (handle label body)) = cookie_calls (events body)"
  by (simp add: events_handle split: result.split)

lemma pdf_calls_handle [simp]: "pdf_calls (events (handle label body)) = pdf_calls (events body)"
  by (simp add: events_handle split: result.split)

lemma screenshot_calls_handle [simp]:
  "screenshot_calls (events (handle label body)) = screenshot_calls (events body)"
  by (simp add: events_handle split: result.split)

lemma stdout_writes_handle [simp]:
  "stdout_writes (events (handle label body)) = stdout_writes (events body)"
  by (simp add: events_handle split: result.split)

lemma evaluated_handle [simp]: "evaluated (events (handle label body)) = evaluated (events body)"
  by (simp add: events_handle split: result.split)


lemma labelled_append [simp]: "labelled (a @ b) = labelled a @ labelled b"
  by (induction a rule: labelled.induct) simp_all

lemma uncaught_append [simp]: "uncaught (a @ b) = uncaught a @ uncaught b"
  by (induction a rule: uncaught.induct) simp_all

subsection \<open>The runtime\<close>

lemma doom_None: "doom eng t = None \<longleftrightarrow> (\<forall>ev\<in>set t. dropped eng ev = None)"
  by (induction t) (auto split: option.splits)

lemma doom_Some:
  "doom eng t = Some (e, before, after) \<Longrightarrow> t = before @ after"
  by (induction t arbitrary: before) (auto split: option.splits)

lemma cut_after_take: "cut_after k t = Some seen \<Longrightarrow> seen = take (length seen) t"
  by (induction k t arbitrary: seen rule: cut_after.induct) (auto split: if_splits nat.splits)

lemma cut_after_None: "(\<And>c. Call c \<in> set t \<Longrightarrow> \<not> awaited c) \<Longrightarrow> cut_after k t = None"
  by (induction k t rule: cut_after.induct) auto

lemma runtime_id: "doom eng (events m) = None \<Longrightarrow> runtime eng m = m"
  by (simp add: runtime_def)

text \<open>
  What the runtime leaves of a run is a part of it from the start, followed by the
  report of the runtime if it ended the process.
\<close>

lemma runtime_events:
  "\<exists>n sfx. events (runtime eng m) = take n (events m) @ sfx \<and>
     (sfx = [] \<or> (\<exists>e. sfx = [UncaughtError e]))"
proof (cases "doom eng (events m)")
  case None
  then have "events (runtime eng m) = take (length (events m)) (events m) @ []"
    by (simp add: runtime_id)
  then show ?thesis by blast
next
  case (Some d)
  then obtain e before after where d: "doom eng (events m) = Some (e, before, after)"
    by (cases d) auto
  note ev = doom_Some [OF d]
  show ?thesis
  proof (cases "cut_after (noticed_after eng) after")
    case None
    show ?thesis
    proof (cases "outcome m")
      case (Return x)
      with d None have "events (runtime eng m) =
          take (length (events m)) (events m) @ [UncaughtError e]"
        by (simp add: runtime_def)
      then show ?thesis by blast
    next
      case (Throw x)
      with d None have "events (runtime eng m) = take (length (events m)) (events m) @ []"
        by (simp add: runtime_def)
      then show ?thesis by blast
    next
      case (Exited x)
      with d None have "events (runtime eng m) = take (length (events m)) (events m) @ []"
        by (simp add: runtime_def)
      then show ?thesis by blast
    qed
  next
    case (Some seen)
    from cut_after_take [OF Some] ev
    have "before @ seen = take (length before + length seen) (events m)"
      by simp
    with d Some have "events (runtime eng m) =
        take (length before + length seen) (events m) @ [UncaughtError e]"
      by (simp add: runtime_def)
    then show ?thesis by blast
  qed
qed

lemma runtime_mem:
  assumes "ev \<in> set (events (runtime eng m))"
  shows "ev \<in> set (events m) \<or> (\<exists>e. ev = UncaughtError e)"
proof -
  from runtime_events [of eng m] obtain n sfx where
    "events (runtime eng m) = take n (events m) @ sfx" "sfx = [] \<or> (\<exists>e. sfx = [UncaughtError e])"
    by blast
  with assms show ?thesis by (auto dest: in_set_takeD)
qed

lemma runtime_call: "Call c \<in> set (events (runtime eng m)) \<Longrightarrow> Call c \<in> set (events m)"
  by (auto dest: runtime_mem)

lemma runtime_stdout:
  "StdoutWrite b \<in> set (events (runtime eng m)) \<Longrightarrow> StdoutWrite b \<in> set (events m)"
  by (auto dest: runtime_mem)

lemma runtime_Return: "outcome (runtime eng m) = Return x \<Longrightarrow> runtime eng m = m"
  by (auto simp: runtime_def split: option.splits result.splits)

lemma runtime_exit_status:
  "exit_status (outcome m) = 1 \<Longrightarrow> exit_status (outcome (runtime eng m)) = 1"
  by (auto simp: runtime_def exit_status_def split: option.splits result.splits)

text \<open>
  A part of the run from the start that holds an event holds all that came before its
  first occurrence.
\<close>

lemma take_reaches:
  assumes "x \<in> set (take n (a @ b))" and "x \<notin> set a"
  shows "take n (a @ b) = a @ take (n - length a) b"
proof (cases "n \<le> length a")
  case True
  with assms show ?thesis by (auto dest: in_set_takeD)
next
  case False
  then show ?thesis by simp
qed

lemma runtime_reaches:
  assumes "Call c \<in> set (events (runtime eng m))" and "events m = a @ b"
    and "Call c \<notin> set a"
  shows "\<exists>b'. events (runtime eng m) = a @ b'"
proof -
  from runtime_events [of eng m] obtain n sfx where
    ev: "events (runtime eng m) = take n (events m) @ sfx"
    and sfx: "sfx = [] \<or> (\<exists>e. sfx = [UncaughtError e])"
    by blast
  from assms(1) ev sfx have "Call c \<in> set (take n (a @ b))"
    using assms(2) by auto
  from take_reaches [OF this assms(3)] ev assms(2) show ?thesis by simp
qed

text \<open>
  \<^verbatim>\<open>screenshot\<close> drops no promise, and \<^verbatim>\<open>print\<close> drops the one of line 127 only.
\<close>

lemma screenshot_not_doomed:
  "doom eng (events (handle label (screenshot lib eng sa))) = None"
proof -
  have "dropped eng ev = None" if "ev \<in> set (events (screenshot lib eng sa))" for ev
    using emitsD [OF screenshot_emits that] by (cases ev; cases "case ev of Call c \<Rightarrow> c") auto
  then show ?thesis
    by (auto simp: doom_None events_handle split: result.splits)
qed

lemma screenshot_runtime [simp]:
  "runtime eng (handle label (screenshot lib eng sa)) = handle label (screenshot lib eng sa)"
  by (rule runtime_id) (rule screenshot_not_doomed)


lemma handler_call:
  "Call c \<in> set (events (runtime eng (handle label body))) \<Longrightarrow> Call c \<in> set (events body)"
  by (auto dest!: runtime_call simp: events_handle split: result.splits)

lemma handler_stdout:
  "StdoutWrite b \<in> set (events (runtime eng (handle label body))) \<Longrightarrow>
     StdoutWrite b \<in> set (events body)"
  by (auto dest!: runtime_stdout simp: events_handle split: result.splits)

lemma doom_keeps_dropped:
  assumes "doom eng (a @ Call c # b) = Some (e, before, after)"
    and "\<forall>ev\<in>set a. dropped eng ev = None" and "\<not> awaited c"
  shows "\<exists>r. before = a @ Call c # r"
  using assms
  by (induction a arbitrary: before) (auto split: option.splits)

lemma runtime_keeps_dropped:
  assumes "events m = a @ Call c # b" and "\<forall>ev\<in>set a. dropped eng ev = None"
    and "\<not> awaited c"
  shows "\<exists>b'. events (runtime eng m) = a @ Call c # b'"
proof (cases "doom eng (events m)")
  case None
  with assms(1) show ?thesis by (simp add: runtime_id)
next
  case (Some d)
  then obtain e before after where d: "doom eng (events m) = Some (e, before, after)"
    by (cases d) auto
  from doom_keeps_dropped [OF d [unfolded assms(1)] assms(2,3)]
  obtain r where "before = a @ Call c # r" ..
  with d assms(1) show ?thesis
    by (auto simp: runtime_def split: option.splits result.splits)
qed

lemma screenshot_handler_eq:
  "screenshot_handler lib eng sa = handle ''Failed to take screenshot:'' (screenshot lib eng sa)"
  by (simp add: screenshot_handler_def)

lemma gotos_empty: "\<forall>u opts. Call (Goto u opts) \<notin> set t \<Longrightarrow> gotos t = []"
  by (induction t rule: gotos.induct) auto

lemma handler_gotos:
  assumes "gotos (events body) = []"
  shows "gotos (events (runtime eng (handle label body))) = []"
proof (rule gotos_empty, intro allI notI)
  fix u opts
  assume "Call (Goto u opts) \<in> set (events (runtime eng (handle label body)))"
  then have "Call (Goto u opts) \<in> set (events body)" by (rule handler_call)
  then have "u \<in> set (gotos (events body))" by (auto simp: gotos_mem)
  with assms show False by simp
qed

lemma handler_throw_status:
  "outcome body = Throw e \<Longrightarrow> exit_status (outcome (runtime eng (handle label body))) = 1"
  by (rule runtime_exit_status) (simp add: outcome_handle exit_status_def)

section \<open>Cookie parsing\<close>

lemma indexOf_ge: "- 1 \<le> indexOf s c"
  by (induction s) (auto simp: Let_def)

lemma indexOf_absent: "indexOf s c = - 1 \<longleftrightarrow> c \<notin> set s"
proof (induction s)
  case Nil
  show ?case by simp
next
  case (Cons a s)
  with indexOf_ge [of s c] show ?case by (auto simp: Let_def)
qed

lemma indexOf_present: "c \<in> set s \<Longrightarrow> indexOf s c = int (length (takeWhile (\<lambda>x. x \<noteq> c) s))"
  by (induction s) (auto simp: Let_def indexOf_absent)

lemma cookie_of_absent:
  "CHR '':'' \<notin> set s \<Longrightarrow> cookie_of u s = Inl (Error ''cookie must contain : delimiter'')"
  by (simp add: cookie_of_def indexOf_absent)

lemma cookie_of_present:
  assumes "CHR '':'' \<in> set s"
  shows "cookie_of u s =
     Inr \<lparr>c_name = takeWhile (\<lambda>x. x \<noteq> CHR '':'') s,
          c_value = tl (dropWhile (\<lambda>x. x \<noteq> CHR '':'') s), c_url = u\<rparr>"
proof -
  let ?n = "length (takeWhile (\<lambda>x. x \<noteq> CHR '':'') s)"
  have i: "indexOf s CHR '':'' = int ?n" using assms by (rule indexOf_present)
  have "take ?n s = takeWhile (\<lambda>x. x \<noteq> CHR '':'') s"
    by (metis takeWhile_eq_take)
  moreover have "drop (Suc ?n) s = tl (dropWhile (\<lambda>x. x \<noteq> CHR '':'') s)"
    by (metis drop_Suc dropWhile_eq_drop tl_drop)
  ultimately show ?thesis
    by (simp add: cookie_of_def i substr_def substr_from_def Let_def nat_add_distrib)
qed

lemma cookie_of_url: "cookie_of u s = Inr c \<Longrightarrow> c_url c = u"
  by (auto simp: cookie_of_def Let_def split: if_splits)

lemma cookie_of_error: "cookie_of u s = Inl e \<Longrightarrow> e = Error ''cookie must contain : delimiter''"
  by (auto simp: cookie_of_def Let_def split: if_splits)

lemma map_throwing_all:
  "(\<And>x. x \<in> set xs \<Longrightarrow> f x = Inr (g x)) \<Longrightarrow> map_throwing f xs = Inr (map g xs)"
  by (induction xs) auto

lemma map_throwing_Inr:
  "map_throwing f xs = Inr ys \<Longrightarrow> length ys = length xs \<and> (\<forall>i<length xs. f (xs ! i) = Inr (ys ! i))"
proof (induction xs arbitrary: ys)
  case Nil
  then show ?case by simp
next
  case (Cons x xs)
  then show ?case
    by (auto split: sum.splits simp: nth_Cons split: nat.splits)
qed

lemma map_throwing_some:
  assumes "x \<in> set xs" and "f x = Inl e" and "\<And>y e'. f y = Inl e' \<Longrightarrow> e' = e"
  shows "map_throwing f xs = Inl e"
  using assms(1,2)
proof (induction xs)
  case Nil
  then show ?case by simp
next
  case (Cons a xs)
  then show ?case
    by (cases "f a"; cases "map_throwing f xs") (auto dest: assms(3))
qed

lemma buildCookies_array:
  assumes "cookie argv = CookieArray xs" and "\<And>s. s \<in> set xs \<Longrightarrow> CHR '':'' \<in> set s"
  shows "buildCookies argv =
     Inr (map (\<lambda>s. \<lparr>c_name = takeWhile (\<lambda>x. x \<noteq> CHR '':'') s,
                     c_value = tl (dropWhile (\<lambda>x. x \<noteq> CHR '':'') s),
                     c_url = url argv\<rparr>) xs)"
  unfolding buildCookies_def using assms
  by (auto intro!: map_throwing_all simp: cookie_of_present)

lemma buildCookies_url:
  assumes "buildCookies argv = Inr cs" and "c \<in> set cs"
  shows "c_url c = url argv"
proof -
  from assms(2) obtain i where i: "i < length cs" "cs ! i = c"
    by (auto simp: in_set_conv_nth)
  from assms(1) obtain xs where "map_throwing (cookie_of (url argv)) xs = Inr cs"
    by (auto simp: buildCookies_def split: sum.splits)
  from map_throwing_Inr [OF this] i
  show ?thesis by (auto dest: cookie_of_url)
qed

lemma buildCookies_fails:
  assumes "truthy_cookie (cookie argv)" and "s \<in> set (supplied (cookie argv))"
    and "CHR '':'' \<notin> set s"
  shows "buildCookies argv = Inl (Error ''cookie must contain : delimiter'')"
proof (cases "cookie argv")
  case CookieUndefined
  with assms show ?thesis by simp
next
  case (CookieString t)
  with assms have t: "t = s" "s \<noteq> []" by auto
  then obtain c cs where s: "s = c # cs" by (cases s) auto
  with assms(3) have eq: "cookie_of (url argv) [c] = Inl (Error ''cookie must contain : delimiter'')"
    by (intro cookie_of_absent) auto
  have mem: "[c] \<in> set (map (\<lambda>c. [c]) t)" using t s by simp
  have "map_throwing (cookie_of (url argv)) (map (\<lambda>c. [c]) t) =
      Inl (Error ''cookie must contain : delimiter'')"
    by (rule map_throwing_some [where f = "cookie_of (url argv)", OF mem eq])
      (auto dest: cookie_of_error)
  with CookieString show ?thesis by (simp add: buildCookies_def)
next
  case (CookieArray xs)
  with assms have mem: "s \<in> set xs" by simp
  have eq: "cookie_of (url argv) s = Inl (Error ''cookie must contain : delimiter'')"
    using assms(3) by (rule cookie_of_absent)
  have "map_throwing (cookie_of (url argv)) xs = Inl (Error ''cookie must contain : delimiter'')"
    by (rule map_throwing_some [where f = "cookie_of (url argv)", OF mem eq])
      (auto dest: cookie_of_error)
  with CookieArray show ?thesis by (simp add: buildCookies_def)
qed

text \<open>
  Several cookies: \<^verbatim>\<open>argv.cookie\<close> is an array, and each string holding a colon
  gives one record, split at its first colon.
\<close>

lemma buildCookies_example:
  "buildCookies ((print_defaults ''https://example.com/'')
      \<lparr>cookie := CookieArray [''name:value:extra'', ''k:v'']\<rparr>) =
     Inr [\<lparr>c_name = ''name'', c_value = ''value:extra'',
            c_url = Str ''https://example.com/''\<rparr>,
          \<lparr>c_name = ''k'', c_value = ''v'', c_url = Str ''https://example.com/''\<rparr>]"
  by code_simp

text \<open>
  Claim C1 says that one record per supplied string is produced, with the name before the
  first colon and the value after it, whether one cookie string or several are supplied.
  With a single \<^verbatim>\<open>--cookie name:value:extra\<close> the option is a plain string; the
  spread of line 250 iterates its characters, the first of which holds no colon, and
  \<^verbatim>\<open>buildCookies\<close> throws where the claim promises the record with name
  \<^verbatim>\<open>name\<close> and value \<^verbatim>\<open>value:extra\<close>. The run sets no cookie and exits with
  status 1.
\<close>

theorem single_cookie_string_throws:
  "spread (CookieString ''name:value:extra'') =
     Inr [''n'', ''a'', ''m'', ''e'', '':'', ''v'', ''a'', ''l'', ''u'', ''e'', '':'', ''e'', ''x'',
          ''t'', ''r'', ''a''] \<and>
   buildCookies ((print_defaults ''https://example.com/'')
      \<lparr>cookie := CookieString ''name:value:extra''\<rparr>) =
     Inl (Error ''cookie must contain : delimiter'') \<and>
   outcome (print_handler sample_libs sample_engine ((print_defaults ''https://example.com/'')
      \<lparr>cookie := CookieString ''name:value:extra''\<rparr>)) = Exited 1 \<and>
   cookie_calls (events (print_handler sample_libs sample_engine
      ((print_defaults ''https://example.com/'')
         \<lparr>cookie := CookieString ''name:value:extra''\<rparr>))) = []"
  by code_simp

text \<open>
  Claim C2, as the code has it. Every cookie record handed to \<^verbatim>\<open>page.setCookie\<close>, by
  either command, carries in its \<^verbatim>\<open>url\<close> field the positional argument exactly as it
  was given (\<^verbatim>\<open>argv.url\<close>, which \<^verbatim>\<open>buildCookies\<close> takes from the options), not
  the resolved target address.
\<close>

theorem cookie_scope:
  "(\<forall>cs\<in>set (cookie_calls (events (print_handler lib eng pa))). \<forall>c\<in>set cs. c_url c = url pa) \<and>
   (\<forall>cs\<in>set (cookie_calls (events (screenshot_handler lib eng sa))). \<forall>c\<in>set cs. c_url c = url sa)"
proof (intro conjI ballI)
  fix cs c
  assume "cs \<in> set (cookie_calls (events (print_handler lib eng pa)))" and c: "c \<in> set cs"
  then have "Call (SetCookie cs) \<in> set (events (print lib eng pa))"
    by (auto simp: cookie_calls_mem print_handler_def dest: handler_call)
  from emitsD [OF print_emits this] c show "c_url c = url pa"
    by (auto dest: buildCookies_url)
next
  fix cs c
  assume "cs \<in> set (cookie_calls (events (screenshot_handler lib eng sa)))" and c: "c \<in> set cs"
  then have "Call (SetCookie cs) \<in> set (events (screenshot lib eng sa))"
    by (auto simp: cookie_calls_mem screenshot_handler_def dest: handler_call)
  from emitsD [OF screenshot_emits this] c show "c_url c = url sa"
    by (auto dest: buildCookies_url)
qed

text \<open>The theorem at work, with two cookies for each command.\<close>

theorem cookie_scope_witness:
  "map (map c_url) (cookie_calls (events (print_handler sample_libs sample_engine
      ((print_defaults ''https://example.com/'')\<lparr>cookie := CookieArray [''a:b'', ''c:d:e'']\<rparr>)))) =
     [[Str ''https://example.com/'', Str ''https://example.com/'']] \<and>
   map (map c_url) (cookie_calls (events (screenshot_handler sample_libs sample_engine
      ((screenshot_defaults ''page.html'')\<lparr>cookie := CookieArray [''a:b'', ''c:d:e'']\<rparr>)))) =
     [[Str ''page.html'', Str ''page.html'']]"
  using cookie_scope [of sample_libs sample_engine
      "(print_defaults ''https://example.com/'')\<lparr>cookie := CookieArray [''a:b'', ''c:d:e'']\<rparr>"
      "(screenshot_defaults ''page.html'')\<lparr>cookie := CookieArray [''a:b'', ''c:d:e'']\<rparr>"]
  by code_simp

text \<open>
  The claim as the specification words it, each record tagged with the address the engine
  navigates to, fails for a local path: the records carry the path, and navigation goes
  to the \<^verbatim>\<open>file://\<close> address.
\<close>

theorem cookie_scope_counterexample:
  "cookie_calls (events (print_handler sample_libs sample_engine
      ((print_defaults ''/tmp/page.html'')\<lparr>cookie := CookieArray [''a:b'', ''c:d'']\<rparr>))) =
     [[\<lparr>c_name = ''a'', c_value = ''b'', c_url = Str ''/tmp/page.html''\<rparr>,
       \<lparr>c_name = ''c'', c_value = ''d'', c_url = Str ''/tmp/page.html''\<rparr>]] \<and>
   gotos (events (print_handler sample_libs sample_engine
      ((print_defaults ''/tmp/page.html'')\<lparr>cookie := CookieArray [''a:b'', ''c:d'']\<rparr>))) =
     [''file:///tmp/page.html'']"
  by code_simp

section \<open>Target resolution\<close>

lemma target_address_Inr:
  "target_address lib x = Inr u \<Longrightarrow>
     \<exists>s. x = Str s \<and> u = (if isUrl lib s then parseUrl lib s else fileUrl (cwd lib) s)"
  by (cases x) auto

lemma print_numeric_url:
  assumes "url pa = Num n"
  shows "\<exists>e. outcome (print lib eng pa) = Throw e"
  using assms
  by (simp add: print_def outcome_and_then split: option.splits)

lemma screenshot_numeric_url:
  assumes "url sa = Num n"
  shows "\<exists>e. outcome (screenshot lib eng sa) = Throw e"
  using assms
  by (simp add: screenshot_def outcome_and_then split: option.splits)

subsection \<open>Addresses of files\<close>

lemma hex_digits_safe: "list_all uri_unescaped ''0123456789ABCDEF''"
  by code_simp

lemma hex_values: "map hex_value ''0123456789ABCDEF'' = [0..<16]"
  by code_simp

lemma percent_escaped: "\<not> uri_unescaped CHR ''%''"
  by code_simp

lemma slash_unescaped: "uri_unescaped CHR ''/''"
  by code_simp

lemma hex_digit_safe: "n < 16 \<Longrightarrow> uri_unescaped (hex_digit n)"
  using hex_digits_safe by (simp add: hex_digit_def list_all_length)

lemma hex_value_digit:
  assumes "n < 16"
  shows "hex_value (hex_digit n) = n"
proof -
  have "hex_value (hex_digit n) = map hex_value ''0123456789ABCDEF'' ! n"
    unfolding hex_digit_def using assms by (subst nth_map) simp_all
  also have "\<dots> = n" using assms unfolding hex_values by simp
  finally show ?thesis .
qed

lemma char_halves: "of_char c div 16 < (16 :: nat)" "of_char c mod 16 < (16 :: nat)"
  using nat_of_char_less_256 [of c] by presburger+

lemma encode_uri_Cons:
  "encode_uri (c # s) = (if uri_unescaped c then [c] else percent_encoded c) @ encode_uri s"
  by (simp add: encode_uri_def)

lemma encode_uri_safe: "list_all (\<lambda>c. uri_unescaped c \<or> c = CHR ''%'') (encode_uri s)"
  by (induction s) (simp_all add: encode_uri_def percent_encoded_def hex_digit_safe char_halves)

lemma decode_uri_plain: "a \<noteq> CHR ''%'' \<Longrightarrow> decode_uri (a # r) = a # decode_uri r"
proof (cases r)
  case Nil
  then show ?thesis by simp
next
  case (Cons b r')
  assume "a \<noteq> CHR ''%''"
  with Cons show ?thesis by (cases r') simp_all
qed

lemma decode_percent_encoded: "decode_uri (percent_encoded c @ r) = c # decode_uri r"
proof -
  have "16 * (of_char c div 16) + of_char c mod 16 = (of_char c :: nat)"
    by simp
  then show ?thesis
    by (simp add: percent_encoded_def hex_value_digit char_halves)
qed

lemma decode_encode_uri: "decode_uri (encode_uri s) = s"
proof (induction s)
  case Nil
  show ?case by (simp add: encode_uri_def)
next
  case (Cons c s)
  show ?case
  proof (cases "uri_unescaped c")
    case True
    with percent_escaped have "c \<noteq> CHR ''%''" by auto
    with True Cons show ?thesis by (simp add: encode_uri_Cons decode_uri_plain)
  next
    case False
    with Cons show ?thesis by (simp add: encode_uri_Cons decode_percent_encoded)
  qed
qed

lemma fileUrl_scheme: "fileUrl d p = ''file:///'' @ drop 8 (fileUrl d p)"
  by (simp add: fileUrl_def path_resolve_def Let_def encode_uri_Cons slash_unescaped)

lemma fileUrl_safe: "list_all (\<lambda>c. uri_unescaped c \<or> c = CHR ''%'') (fileUrl d p)"
proof -
  have "list_all (\<lambda>c. uri_unescaped c \<or> c = CHR ''%'') ''file://''"
    by code_simp
  with encode_uri_safe show ?thesis
    unfolding fileUrl_def by (simp only: list_all_append)
qed

lemma fileUrl_decode:
  "decode_uri (drop 7 (fileUrl d p)) =
     map (\<lambda>c. if c = CHR 0x5C then CHR ''/'' else c) (path_resolve d p)"
  by (simp add: fileUrl_def decode_encode_uri)

lemma fileUrl_absolute: "take 1 p = ''/'' \<Longrightarrow> fileUrl d p = fileUrl d' p"
  by (simp add: fileUrl_def path_resolve_def)

lemma fileUrl_relative:
  assumes "take 1 p \<noteq> ''/''" and "take 1 d = ''/''"
  shows "fileUrl d p = fileUrl d' (d @ ''/'' @ p)"
proof -
  from assms(2) have "take 1 (d @ ''/'' @ p) = ''/''" by (cases d) simp_all
  with assms(1) show ?thesis by (simp add: fileUrl_def path_resolve_def)
qed

text \<open>
  Claim C6, as the code has it. Whenever either command navigates, the positional
  argument was delivered as a string and the address handed to \<^verbatim>\<open>page.goto\<close> is
  decided by \<^verbatim>\<open>isUrl\<close> on it: an argument recognised as a URL goes through the URL
  parser and its re-serialisation (\<^verbatim>\<open>parseUrl(url).toString()\<close>) is navigated to; any
  other string is converted by \<^verbatim>\<open>fileUrl\<close>. An argument delivered as a number is
  navigated to by neither command: the run ends with exit status 1. What \<^verbatim>\<open>fileUrl\<close>
  gives starts with \<^verbatim>\<open>file:///\<close>, holds no character but those that need no
  escaping in a URL and the percent sign, and read back without its scheme and with the
  escapes undone is the resolved path; an absolute path is resolved without regard to the
  working directory, a relative path as the path below the working directory is.
\<close>

theorem navigation_target:
  "(\<forall>u\<in>set (gotos (events (print_handler lib eng pa))).
      \<exists>s. url pa = Str s \<and>
        u = (if isUrl lib s then parseUrl lib s else fileUrl (cwd lib) s)) \<and>
   (\<forall>u\<in>set (gotos (events (screenshot_handler lib eng sa))).
      \<exists>s. url sa = Str s \<and>
        u = (if isUrl lib s then parseUrl lib s else fileUrl (cwd lib) s)) \<and>
   (\<forall>n. url pa = Num n \<longrightarrow>
      gotos (events (print_handler lib eng pa)) = [] \<and>
      exit_status (outcome (print_handler lib eng pa)) = 1) \<and>
   (\<forall>n. url sa = Num n \<longrightarrow>
      gotos (events (screenshot_handler lib eng sa)) = [] \<and>
      exit_status (outcome (screenshot_handler lib eng sa)) = 1) \<and>
   fileUrl d p = ''file:///'' @ drop 8 (fileUrl d p) \<and>
   list_all (\<lambda>c. uri_unescaped c \<or> c = CHR ''%'') (fileUrl d p) \<and>
   decode_uri (drop 7 (fileUrl d p)) =
     map (\<lambda>c. if c = CHR 0x5C then CHR ''/'' else c) (path_resolve d p) \<and>
   (take 1 p = ''/'' \<longrightarrow> fileUrl d p = fileUrl d' p) \<and>
   (take 1 p \<noteq> ''/'' \<and> take 1 d = ''/'' \<longrightarrow> fileUrl d p = fileUrl d' (d @ ''/'' @ p))"
proof -
  have pg: "\<exists>s. url pa = Str s \<and>
        u = (if isUrl lib s then parseUrl lib s else fileUrl (cwd lib) s)"
    if "u \<in> set (gotos (events (print_handler lib eng pa)))" for u
  proof -
    from that obtain opts where "Call (Goto u opts) \<in> set (events (print lib eng pa))"
      by (auto simp: gotos_mem print_handler_def dest: handler_call)
    from emitsD [OF print_emits this] have "target_address lib (url pa) = Inr u"
      by simp
    then show ?thesis by (rule target_address_Inr)
  qed
  have sg: "\<exists>s. url sa = Str s \<and>
        u = (if isUrl lib s then parseUrl lib s else fileUrl (cwd lib) s)"
    if "u \<in> set (gotos (events (screenshot_handler lib eng sa)))" for u
  proof -
    from that obtain opts where "Call (Goto u opts) \<in> set (events (screenshot lib eng sa))"
      by (auto simp: gotos_mem screenshot_handler_def dest: handler_call)
    from emitsD [OF screenshot_emits this] have "target_address lib (url sa) = Inr u"
      by simp
    then show ?thesis by (rule target_address_Inr)
  qed
  have pn: "gotos (events (print_handler lib eng pa)) = [] \<and>
      exit_status (outcome (print_handler lib eng pa)) = 1" if "url pa = Num n" for n
  proof
    show "gotos (events (print_handler lib eng pa)) = []"
      using pg that by (cases "gotos (events (print_handler lib eng pa))") auto
    from print_numeric_url [OF that, of lib eng]
    obtain e where "outcome (print lib eng pa) = Throw e" ..
    then show "exit_status (outcome (print_handler lib eng pa)) = 1"
      unfolding print_handler_def by (rule handler_throw_status)
  qed
  have sn: "gotos (events (screenshot_handler lib eng sa)) = [] \<and>
      exit_status (outcome (screenshot_handler lib eng sa)) = 1" if "url sa = Num n" for n
  proof
    show "gotos (events (screenshot_handler lib eng sa)) = []"
      using sg that by (cases "gotos (events (screenshot_handler lib eng sa))") auto
    from screenshot_numeric_url [OF that, of lib eng]
    obtain e where "outcome (screenshot lib eng sa) = Throw e" ..
    then show "exit_status (outcome (screenshot_handler lib eng sa)) = 1"
      unfolding screenshot_handler_def by (rule handler_throw_status)
  qed
  from pg sg pn sn fileUrl_scheme [of d p] fileUrl_safe [of d p] fileUrl_decode [of d p]
    fileUrl_absolute [of p d d'] fileUrl_relative [of p d d']
  show ?thesis by blast
qed

text \<open>
  The theorem at work: a relative path with a blank and a number sign in its name given
  to \<^verbatim>\<open>print\<close>, and a URL given to \<^verbatim>\<open>screenshot\<close>.
\<close>

theorem navigation_target_witness:
  "\<not> isUrl sample_libs ''my docs/../page #1.html'' \<and>
   gotos (events (print_handler sample_libs sample_engine
       (print_defaults ''my docs/../page #1.html''))) =
     [''file:///home/user/page%20%231.html''] \<and>
   fileUrl ''/home/user'' ''my docs/../page #1.html'' = ''file:///home/user/page%20%231.html'' \<and>
   fileUrl ''/srv'' ''/home/user/my docs/../page #1.html'' =
     ''file:///home/user/page%20%231.html'' \<and>
   decode_uri ''/home/user/page%20%231.html'' = ''/home/user/page #1.html'' \<and>
   isUrl sample_libs ''https://example.com/a'' \<and>
   gotos (events (screenshot_handler sample_libs sample_engine
       (screenshot_defaults ''https://example.com/a''))) =
     [parseUrl sample_libs ''https://example.com/a'']"
proof -
  have run: "\<not> isUrl sample_libs ''my docs/../page #1.html'' \<and>
   gotos (events (print_handler sample_libs sample_engine
       (print_defaults ''my docs/../page #1.html''))) =
     [''file:///home/user/page%20%231.html''] \<and>
   fileUrl ''/home/user'' ''my docs/../page #1.html'' = ''file:///home/user/page%20%231.html'' \<and>
   decode_uri ''/home/user/page%20%231.html'' = ''/home/user/page #1.html'' \<and>
   isUrl sample_libs ''https://example.com/a'' \<and>
   gotos (events (screenshot_handler sample_libs sample_engine
       (screenshot_defaults ''https://example.com/a''))) =
     [parseUrl sample_libs ''https://example.com/a'']"
    by code_simp
  have rel: "take 1 ''my docs/../page #1.html'' \<noteq> ''/'' \<and> take 1 ''/home/user'' = ''/''"
    by simp
  from run rel navigation_target [where d = "''/home/user''" and d' = "''/srv''"
      and p = "''my docs/../page #1.html''"]
  show ?thesis by simp
qed

text \<open>
  The claim as the specification words it fails twice. A URL is not passed through
  unchanged where the parser normalises: with an upper-case scheme and host the address
  navigated to is not the argument. And an argument that is not a URL is not always
  converted to a \<^verbatim>\<open>file://\<close> address: \<^verbatim>\<open>print 123\<close> has the number 123 for its
  argument, target resolution throws, and nothing is navigated to.
\<close>

theorem url_unchanged_counterexample:
  "isUrl sample_libs ''HTTP://EXAMPLE.COM/'' \<and>
   gotos (events (print_handler sample_libs sample_engine
     (print_defaults ''HTTP://EXAMPLE.COM/''))) = [''http://example.com/''] \<and>
   gotos (events (print_handler sample_libs sample_engine
     (print_defaults ''HTTP://EXAMPLE.COM/''))) \<noteq> [''HTTP://EXAMPLE.COM/''] \<and>
   events (print_handler sample_libs sample_engine
     ((print_defaults ''123'')\<lparr>url := Num 123\<rparr>)) =
     [Call (Launch []), Call NewPage, Call (SetJavaScriptEnabled False),
      ConsoleErrorWith ''Failed to generate pdf:''
        (TypeError ''Expected a string, got number'')] \<and>
   outcome (print_handler sample_libs sample_engine
     ((print_defaults ''123'')\<lparr>url := Num 123\<rparr>)) = Exited 1"
  by code_simp

section \<open>Page size of the PDF\<close>

text \<open>A render call is reached only through the steps before it.\<close>

lemma in_events_and_thenE:
  assumes "e \<in> set (events (and_then m f))"
  obtains "e \<in> set (events m)" | x where "outcome m = Return x" "e \<in> set (events (f x))"
  using assms by (cases "outcome m") (auto simp: events_and_then)

lemma not_emitted: "emits (\<lambda>e'. e' \<noteq> e) m \<Longrightarrow> e \<notin> set (events m)"
  by (auto simp: emits_def list_all_iff)

lemma blocks_no_pdf [simp]:
  "Call (Pdf opts) \<notin> set (events (set_cookies eng argv))"
  "Call (Pdf opts) \<notin> set (events (measure_page eng pa))"
  "Call (Pdf opts) \<notin> set (events (inject_scripts eng pa))"
  "Call (Pdf opts) \<notin> set (events (emulate_media eng pa))"
  by (rule not_emitted, rule emits_blocks, simp_all)+

lemma measure_page_evaluates:
  "outcome (measure_page eng argv) = Return x \<Longrightarrow> format argv = Str ''auto'' \<Longrightarrow>
     Call (Evaluate height_expression) \<in> set (events (measure_page eng argv))"
  by (simp add: measure_page_def events_and_then)

lemma print_pdf_reached:
  assumes "Call (Pdf opts) \<in> set (events (print lib eng argv))"
  shows "rejects eng (Launch (buildLaunchOptions argv)) = None \<and> rejects eng NewPage = None \<and>
     outcome (set_cookies eng argv) = Return () \<and>
     (\<exists>u. target_address lib (url argv) = Inr u \<and>
        rejects eng (Goto u (buildNavigationOptions argv)) = None) \<and>
     (\<exists>h w. outcome (measure_page eng argv) = Return (h, w)) \<and>
     outcome (inject_scripts eng argv) = Return ()"
  using assms unfolding print_def Let_def
  by (auto elim!: in_events_and_thenE split: option.splits sum.splits)

text \<open>
  What a run of \<^verbatim>\<open>print\<close> that gets as far as the render call has done until then.
\<close>

lemma print_before_render:
  assumes "Call (Pdf opts) \<in> set (events (print_handler lib eng argv))"
  shows "\<exists>u post. target_address lib (url argv) = Inr u \<and>
     (\<exists>h w. outcome (measure_page eng argv) = Return (h, w)) \<and>
     outcome (inject_scripts eng argv) = Return () \<and>
     events (print_handler lib eng argv) =
       ([Call (Launch (buildLaunchOptions argv)), Call NewPage,
         Call (SetJavaScriptEnabled False)] @ events (set_cookies eng argv) @
        [ConsoleError (''Loading '' @ u),
         Call (Goto u (buildNavigationOptions argv)),
         ConsoleError (''Writing '' @ or_else lib (output_arg argv) ''STDOUT'')] @
        events (measure_page eng argv) @ events (inject_scripts eng argv)) @ post"
proof -
  from assms have mem: "Call (Pdf opts) \<in> set (events (print lib eng argv))"
    unfolding print_handler_def by (rule handler_call)
  from print_pdf_reached [OF mem] obtain u h w where
    r: "rejects eng (Launch (buildLaunchOptions argv)) = None" "rejects eng NewPage = None"
      "outcome (set_cookies eng argv) = Return ()" "target_address lib (url argv) = Inr u"
      "rejects eng (Goto u (buildNavigationOptions argv)) = None"
      "outcome (measure_page eng argv) = Return (h, w)"
      "outcome (inject_scripts eng argv) = Return ()"
    by blast
  let ?pre = "[Call (Launch (buildLaunchOptions argv)), Call NewPage,
         Call (SetJavaScriptEnabled False)] @ events (set_cookies eng argv) @
        [ConsoleError (''Loading '' @ u),
         Call (Goto u (buildNavigationOptions argv)),
         ConsoleError (''Writing '' @ or_else lib (output_arg argv) ''STDOUT'')] @
        events (measure_page eng argv) @ events (inject_scripts eng argv)"
  have "\<exists>post. events (print lib eng argv) = ?pre @ post"
    using r by (simp add: print_def Let_def events_and_then)
  then obtain post where "events (print lib eng argv) = ?pre @ post" ..
  then have split: "events (handle ''Failed to generate pdf:'' (print lib eng argv)) =
      ?pre @ (post @ (case outcome (print lib eng argv) of
         Throw e \<Rightarrow> [ConsoleErrorWith ''Failed to generate pdf:'' e] | _ \<Rightarrow> []))"
    by (simp add: events_handle)
  have "Call (Pdf opts) \<notin> set ?pre" by simp
  from runtime_reaches [OF assms [unfolded print_handler_def] split this]
  obtain b' where "events (print_handler lib eng argv) = ?pre @ b'"
    unfolding print_handler_def ..
  with r show ?thesis by blast
qed

lemma pdf_after_measure:
  assumes "Call (Pdf opts) \<in> set (events (print_handler lib eng argv))"
    and "format argv = Str ''auto''"
  shows "Call (Evaluate height_expression) \<in> set (events (print_handler lib eng argv))"
proof -
  from print_before_render [OF assms(1)] obtain u post h w where
    "outcome (measure_page eng argv) = Return (h, w)"
    and ev: "events (print_handler lib eng argv) =
       ([Call (Launch (buildLaunchOptions argv)), Call NewPage,
         Call (SetJavaScriptEnabled False)] @ events (set_cookies eng argv) @
        [ConsoleError (''Loading '' @ u),
         Call (Goto u (buildNavigationOptions argv)),
         ConsoleError (''Writing '' @ or_else lib (output_arg argv) ''STDOUT'')] @
        events (measure_page eng argv) @ events (inject_scripts eng argv)) @ post"
    by blast
  from measure_page_evaluates [OF this(1) assms(2)] show ?thesis
    unfolding ev by simp
qed

lemma semicolon_height: "CHR '';'' \<notin> set height_expression"
  by code_simp

lemma injected_not_height: "injected eng argv \<noteq> height_expression"
proof
  assume "injected eng argv = height_expression"
  moreover have "CHR '';'' \<in> set (injected eng argv)" by (simp add: injected_def)
  ultimately show False using semicolon_height by simp
qed

text \<open>
  Claim C3. Whenever \<^verbatim>\<open>print\<close> calls \<^verbatim>\<open>page.pdf\<close>: with \<^verbatim>\<open>--format auto\<close> the
  height passed is the value that evaluating the height script in the page returned (and
  that evaluation was made), the width passed is the fixed \<^verbatim>\<open>1366\<close>, and no paper
  format is passed; with any other format, height and width are left undefined, the
  height script is not evaluated, and the given format is passed through. The height
  script is the maximum of \<^verbatim>\<open>document.body.scrollHeight\<close>,
  \<^verbatim>\<open>document.body.offsetHeight\<close>, \<^verbatim>\<open>document.documentElement.clientHeight\<close>,
  \<^verbatim>\<open>document.documentElement.scrollHeight\<close> and
  \<^verbatim>\<open>document.documentElement.offsetHeight\<close>.
\<close>

theorem auto_format_page_size:
  "(\<forall>opts\<in>set (pdf_calls (events (print_handler lib eng argv))).
     (if format argv = Str ''auto''
      then pdf_height opts = Some (evaluate_result eng height_expression) \<and>
           height_expression \<in> set (evaluated (events (print_handler lib eng argv))) \<and>
           pdf_width opts = Some (JSString ''1366'') \<and>
           pdf_format opts = None
      else pdf_height opts = None \<and> pdf_width opts = None \<and>
           pdf_format opts = Some (format argv) \<and>
           height_expression \<notin> set (evaluated (events (print_handler lib eng argv))))) \<and>
   height_expression = ''Math.max(document.body.scrollHeight, document.body.offsetHeight, document.documentElement.clientHeight, document.documentElement.scrollHeight, document.documentElement.offsetHeight)''"
proof (intro conjI ballI)
  fix opts
  assume "opts \<in> set (pdf_calls (events (print_handler lib eng argv)))"
  then have hmem: "Call (Pdf opts) \<in> set (events (print_handler lib eng argv))"
    by (simp add: pdf_calls_mem)
  then have mem: "Call (Pdf opts) \<in> set (events (print lib eng argv))"
    unfolding print_handler_def by (rule handler_call)
  from emitsD [OF print_emits mem]
  have opts: "opts = pdf_options_of argv
        (if format argv = Str ''auto'' then Some (JSString ''1366'') else None)
        (if format argv = Str ''auto'' then Some (evaluate_result eng height_expression)
         else None)"
    by simp
  show "if format argv = Str ''auto''
      then pdf_height opts = Some (evaluate_result eng height_expression) \<and>
           height_expression \<in> set (evaluated (events (print_handler lib eng argv))) \<and>
           pdf_width opts = Some (JSString ''1366'') \<and>
           pdf_format opts = None
      else pdf_height opts = None \<and> pdf_width opts = None \<and>
           pdf_format opts = Some (format argv) \<and>
           height_expression \<notin> set (evaluated (events (print_handler lib eng argv)))"
  proof (cases "format argv = Str ''auto''")
    case True
    with pdf_after_measure [OF hmem] opts show ?thesis
      by (simp add: pdf_options_of_def evaluated_mem)
  next
    case False
    have "Call (Evaluate height_expression) \<notin> set (events (print_handler lib eng argv))"
    proof
      assume "Call (Evaluate height_expression) \<in> set (events (print_handler lib eng argv))"
      then have "Call (Evaluate height_expression) \<in> set (events (print lib eng argv))"
        unfolding print_handler_def by (rule handler_call)
      from emitsD [OF print_emits this] False injected_not_height [of eng argv]
      show False by simp
    qed
    with False opts show ?thesis
      by (simp add: pdf_options_of_def evaluated_mem)
  qed
next
  show "height_expression = ''Math.max(document.body.scrollHeight, document.body.offsetHeight, document.documentElement.clientHeight, document.documentElement.scrollHeight, document.documentElement.offsetHeight)''"
    by (simp add: height_expression_def)
qed

text \<open>The theorem at work, for \<^verbatim>\<open>--format auto\<close> and for \<^verbatim>\<open>--format A4\<close>.\<close>

theorem auto_format_page_size_witness:
  "pdf_calls (events (print_handler sample_libs sample_engine
      ((print_defaults ''page.html'')\<lparr>format := Str ''auto''\<rparr>))) \<noteq> [] \<and>
   evaluated (events (print_handler sample_libs sample_engine
      ((print_defaults ''page.html'')\<lparr>format := Str ''auto''\<rparr>))) =
     [''Math.max(document.body.scrollHeight, document.body.offsetHeight, document.documentElement.clientHeight, document.documentElement.scrollHeight, document.documentElement.offsetHeight)''] \<and>
   map pdf_height (pdf_calls (events (print_handler sample_libs sample_engine
      ((print_defaults ''page.html'')\<lparr>format := Str ''auto''\<rparr>)))) = [Some (JSNumber 2000)] \<and>
   map pdf_width (pdf_calls (events (print_handler sample_libs sample_engine
      ((print_defaults ''page.html'')\<lparr>format := Str ''auto''\<rparr>)))) =
     [Some (JSString ''1366'')] \<and>
   map pdf_format (pdf_calls (events (print_handler sample_libs sample_engine
      ((print_defaults ''page.html'')\<lparr>format := Str ''auto''\<rparr>)))) = [None] \<and>
   map pdf_format (pdf_calls (events (print_handler sample_libs sample_engine
      ((print_defaults ''page.html'')\<lparr>format := Str ''A4''\<rparr>)))) = [Some (Str ''A4'')] \<and>
   evaluated (events (print_handler sample_libs sample_engine
      ((print_defaults ''page.html'')\<lparr>format := Str ''A4''\<rparr>))) = []"
  using auto_format_page_size [of sample_libs sample_engine
      "(print_defaults ''page.html'')\<lparr>format := Str ''auto''\<rparr>"]
    auto_format_page_size [of sample_libs sample_engine
      "(print_defaults ''page.html'')\<lparr>format := Str ''A4''\<rparr>"]
  by code_simp

section \<open>Script injection\<close>

lemma gotos_nil: "list_all (\<lambda>e. gotos [e] = []) t \<Longrightarrow> gotos t = []"
  by (induction t rule: gotos.induct) auto

lemma blocks_no_goto [simp]:
  "gotos (events (set_cookies eng argv)) = []"
  "gotos (events (measure_page eng pa)) = []"
  "gotos (events (inject_scripts eng pa)) = []"
  "gotos (events (emulate_media eng pa)) = []"
  "gotos (events (write_stdout argv b)) = []"
  "gotos (events (set_viewport eng sa)) = []"
  by (rule gotos_nil, rule emits_blocks [unfolded emits_def], simp_all)+

lemma inject_scripts_events:
  "outcome (inject_scripts eng argv) = Return x \<Longrightarrow> injectJs argv \<noteq> [] \<Longrightarrow>
     events (inject_scripts eng argv) = [Call EvaluateFunction, Call (Evaluate (injected eng argv))]"
  by (auto simp: inject_scripts_def injected_def events_and_then outcome_and_then
      split: option.splits)

text \<open>
  Claim C10. For \<^verbatim>\<open>print\<close> with a non-empty \<^verbatim>\<open>--inject-js\<close>, the script handed to
  the page is the text of \<^verbatim>\<open>script#before\<close>, a semicolon, the supplied script, a
  semicolon, and the text of \<^verbatim>\<open>script#after\<close>, each text being empty when the
  element is absent. No other script is evaluated but the height expression, and every
  run that gets as far as the render call has evaluated the wrapped script after the
  navigation, right after reading the two elements.
\<close>

theorem injected_script_is_wrapped:
  assumes "injectJs argv \<noteq> []"
  shows "injected eng argv =
           (case document eng ''script#before'' of Some txt \<Rightarrow> txt | None \<Rightarrow> '''')
             @ '';'' @ injectJs argv @ '';''
             @ (case document eng ''script#after'' of Some txt \<Rightarrow> txt | None \<Rightarrow> '''') \<and>
         (\<forall>s\<in>set (evaluated (events (print_handler lib eng argv))).
            s = height_expression \<or> s = injected eng argv) \<and>
         (pdf_calls (events (print_handler lib eng argv)) \<noteq> [] \<longrightarrow>
            (\<exists>pre post. events (print_handler lib eng argv) =
               pre @ [Call EvaluateFunction, Call (Evaluate (injected eng argv))] @ post \<and>
               map Inr (gotos pre) = [target_address lib (url argv)]))"
proof (intro conjI ballI impI)
  show "injected eng argv =
      (case document eng ''script#before'' of Some txt \<Rightarrow> txt | None \<Rightarrow> '''')
        @ '';'' @ injectJs argv @ '';''
        @ (case document eng ''script#after'' of Some txt \<Rightarrow> txt | None \<Rightarrow> '''')"
    by (simp add: injected_def read_scripts_def)
next
  fix s
  assume "s \<in> set (evaluated (events (print_handler lib eng argv)))"
  then have "Call (Evaluate s) \<in> set (events (print lib eng argv))"
    by (auto simp: print_handler_def evaluated_mem dest: handler_call)
  from emitsD [OF print_emits this]
  show "s = height_expression \<or> s = injected eng argv"
    by auto
next
  assume "pdf_calls (events (print_handler lib eng argv)) \<noteq> []"
  then obtain opts where "Call (Pdf opts) \<in> set (events (print_handler lib eng argv))"
    by (cases "pdf_calls (events (print_handler lib eng argv))")
       (auto simp: pdf_calls_mem [symmetric])
  from print_before_render [OF this] obtain u post where
    u: "target_address lib (url argv) = Inr u"
    and inj: "outcome (inject_scripts eng argv) = Return ()"
    and ev: "events (print_handler lib eng argv) =
       ([Call (Launch (buildLaunchOptions argv)), Call NewPage,
         Call (SetJavaScriptEnabled False)] @ events (set_cookies eng argv) @
        [ConsoleError (''Loading '' @ u),
         Call (Goto u (buildNavigationOptions argv)),
         ConsoleError (''Writing '' @ or_else lib (output_arg argv) ''STDOUT'')] @
        events (measure_page eng argv) @ events (inject_scripts eng argv)) @ post"
    by blast
  let ?pre = "[Call (Launch (buildLaunchOptions argv)), Call NewPage,
      Call (SetJavaScriptEnabled False)] @ events (set_cookies eng argv) @
      [ConsoleError (''Loading '' @ u),
       Call (Goto u (buildNavigationOptions argv)),
       ConsoleError (''Writing '' @ or_else lib (output_arg argv) ''STDOUT'')] @
      events (measure_page eng argv)"
  show "\<exists>pre post. events (print_handler lib eng argv) =
      pre @ [Call EvaluateFunction, Call (Evaluate (injected eng argv))] @ post \<and>
      map Inr (gotos pre) = [target_address lib (url argv)]"
  proof (intro exI conjI)
    show "events (print_handler lib eng argv) =
        ?pre @ [Call EvaluateFunction, Call (Evaluate (injected eng argv))] @ post"
      unfolding ev inject_scripts_events [OF inj assms] by simp
    show "map Inr (gotos ?pre) = [target_address lib (url argv)]"
      using u by simp
  qed
qed

text \<open>
  The theorem at work on the sample page, which has a \<^verbatim>\<open>script#before\<close> element and
  no \<^verbatim>\<open>script#after\<close>.
\<close>

theorem injected_script_is_wrapped_witness:
  "injectJs ((print_defaults ''page.html'')\<lparr>injectJs := ''go()''\<rparr>) = ''go()'' \<and>
   evaluated (events (print_handler sample_libs sample_engine
      ((print_defaults ''page.html'')\<lparr>injectJs := ''go()''\<rparr>))) = [''var a = 1;go();''] \<and>
   injected sample_engine ((print_defaults ''page.html'')\<lparr>injectJs := ''go()''\<rparr>) =
     ''var a = 1;go();''"
proof -
  have run: "injectJs ((print_defaults ''page.html'')\<lparr>injectJs := ''go()''\<rparr>) = ''go()'' \<and>
   evaluated (events (print_handler sample_libs sample_engine
      ((print_defaults ''page.html'')\<lparr>injectJs := ''go()''\<rparr>))) = [''var a = 1;go();''] \<and>
   injected sample_engine ((print_defaults ''page.html'')\<lparr>injectJs := ''go()''\<rparr>) =
     ''var a = 1;go();''"
    by code_simp
  from injected_script_is_wrapped [of "(print_defaults ''page.html'')\<lparr>injectJs := ''go()''\<rparr>"
      sample_engine sample_libs] run
  show ?thesis by simp
qed

section \<open>JavaScript in the page\<close>

lemma print_page_created:
  assumes "rejects eng (Launch (buildLaunchOptions pa)) = None" and "rejects eng NewPage = None"
  shows "\<exists>rest. events (print_handler lib eng pa) =
     [Call (Launch (buildLaunchOptions pa)), Call NewPage, Call (SetJavaScriptEnabled False)] @ rest"
proof -
  have "\<exists>rest. events (handle ''Failed to generate pdf:'' (print lib eng pa)) =
     [Call (Launch (buildLaunchOptions pa)), Call NewPage] @
       Call (SetJavaScriptEnabled False) # rest"
    using assms by (simp add: events_handle print_def Let_def events_and_then)
  then obtain rest where "events (handle ''Failed to generate pdf:'' (print lib eng pa)) =
     [Call (Launch (buildLaunchOptions pa)), Call NewPage] @
       Call (SetJavaScriptEnabled False) # rest" ..
  from runtime_keeps_dropped [OF this, of eng] show ?thesis
    by (simp add: print_handler_def)
qed

lemma print_goto_reached:
  assumes "Call (Goto u opts) \<in> set (events (print lib eng pa))"
  shows "rejects eng (Launch (buildLaunchOptions pa)) = None \<and> rejects eng NewPage = None"
  using assms unfolding print_def Let_def
  by (auto elim!: in_events_and_thenE split: option.splits)

text \<open>
  Claim C9. A run of \<^verbatim>\<open>print\<close> that gets a page switches JavaScript off as the very
  next thing it does; every navigation of \<^verbatim>\<open>print\<close> comes after that; \<^verbatim>\<open>print\<close>
  never switches JavaScript on; and \<^verbatim>\<open>screenshot\<close> never calls
  \<^verbatim>\<open>setJavaScriptEnabled\<close> at all.
\<close>

theorem javascript_disabled_for_print:
  "(rejects eng (Launch (buildLaunchOptions pa)) = None \<and> rejects eng NewPage = None \<longrightarrow>
      (\<exists>rest. events (print_handler lib eng pa) =
         [Call (Launch (buildLaunchOptions pa)), Call NewPage,
          Call (SetJavaScriptEnabled False)] @ rest)) \<and>
   (\<forall>u\<in>set (gotos (events (print_handler lib eng pa))).
      \<exists>rest. events (print_handler lib eng pa) =
         [Call (Launch (buildLaunchOptions pa)), Call NewPage,
          Call (SetJavaScriptEnabled False)] @ rest \<and> u \<in> set (gotos rest)) \<and>
   (\<forall>b. Call (SetJavaScriptEnabled b) \<in> set (events (print_handler lib eng pa)) \<longrightarrow> \<not> b) \<and>
   (\<forall>b. Call (SetJavaScriptEnabled b) \<notin> set (events (screenshot_handler lib eng sa)))"
proof (intro conjI impI ballI allI)
  assume "rejects eng (Launch (buildLaunchOptions pa)) = None \<and> rejects eng NewPage = None"
  then show "\<exists>rest. events (print_handler lib eng pa) =
         [Call (Launch (buildLaunchOptions pa)), Call NewPage,
          Call (SetJavaScriptEnabled False)] @ rest"
    using print_page_created [of eng pa lib] by simp
next
  fix u
  assume u: "u \<in> set (gotos (events (print_handler lib eng pa)))"
  then obtain opts where "Call (Goto u opts) \<in> set (events (print lib eng pa))"
    by (auto simp: print_handler_def gotos_mem dest: handler_call)
  from print_goto_reached [OF this] obtain rest where rest: "events (print_handler lib eng pa) =
     [Call (Launch (buildLaunchOptions pa)), Call NewPage, Call (SetJavaScriptEnabled False)] @ rest"
    using print_page_created [of eng pa lib] by auto
  with u have "u \<in> set (gotos rest)" by simp
  with rest show "\<exists>rest. events (print_handler lib eng pa) =
         [Call (Launch (buildLaunchOptions pa)), Call NewPage,
          Call (SetJavaScriptEnabled False)] @ rest \<and> u \<in> set (gotos rest)"
    by blast
next
  fix b
  assume "Call (SetJavaScriptEnabled b) \<in> set (events (print_handler lib eng pa))"
  then have "Call (SetJavaScriptEnabled b) \<in> set (events (print lib eng pa))"
    unfolding print_handler_def by (rule handler_call)
  from emitsD [OF print_emits this] show "\<not> b" by simp
next
  fix b
  show "Call (SetJavaScriptEnabled b) \<notin> set (events (screenshot_handler lib eng sa))"
  proof
    assume "Call (SetJavaScriptEnabled b) \<in> set (events (screenshot_handler lib eng sa))"
    then have "Call (SetJavaScriptEnabled b) \<in> set (events (screenshot lib eng sa))"
      unfolding screenshot_handler_def by (rule handler_call)
    from emitsD [OF screenshot_emits this] show False by simp
  qed
qed

text \<open>The theorem at work on the defaults.\<close>

theorem javascript_disabled_for_print_witness:
  "take 3 (events (print_handler sample_libs sample_engine (print_defaults ''page.html''))) =
     [Call (Launch []), Call NewPage, Call (SetJavaScriptEnabled False)] \<and>
   gotos (drop 3 (events (print_handler sample_libs sample_engine (print_defaults ''page.html'')))) =
     [''file:///home/user/page.html''] \<and>
   gotos (events (screenshot_handler sample_libs sample_engine (screenshot_defaults ''page.html''))) =
     [''file:///home/user/page.html''] \<and>
   filter (\<lambda>e. e = Call (SetJavaScriptEnabled False) \<or> e = Call (SetJavaScriptEnabled True))
     (events (screenshot_handler sample_libs sample_engine (screenshot_defaults ''page.html''))) = []"
proof -
  have run: "take 3 (events (print_handler sample_libs sample_engine (print_defaults ''page.html''))) =
     [Call (Launch []), Call NewPage, Call (SetJavaScriptEnabled False)] \<and>
   gotos (drop 3 (events (print_handler sample_libs sample_engine (print_defaults ''page.html'')))) =
     [''file:///home/user/page.html''] \<and>
   gotos (events (screenshot_handler sample_libs sample_engine (screenshot_defaults ''page.html''))) =
     [''file:///home/user/page.html''] \<and>
   filter (\<lambda>e. e = Call (SetJavaScriptEnabled False) \<or> e = Call (SetJavaScriptEnabled True))
     (events (screenshot_handler sample_libs sample_engine (screenshot_defaults ''page.html''))) = []"
    by code_simp
  from javascript_disabled_for_print [of sample_engine "print_defaults ''page.html''" sample_libs
      "screenshot_defaults ''page.html''"] run
  show ?thesis by simp
qed

section \<open>Where the result goes\<close>

lemma pdf_calls_nil: "list_all (\<lambda>e. pdf_calls [e] = []) t \<Longrightarrow> pdf_calls t = []"
  by (induction t rule: pdf_calls.induct) auto

lemma screenshot_calls_nil:
  "list_all (\<lambda>e. screenshot_calls [e] = []) t \<Longrightarrow> screenshot_calls t = []"
  by (induction t rule: screenshot_calls.induct) auto

lemma stdout_writes_nil: "list_all (\<lambda>e. stdout_writes [e] = []) t \<Longrightarrow> stdout_writes t = []"
  by (induction t rule: stdout_writes.induct) auto

lemma blocks_no_pdf_call [simp]:
  "pdf_calls (events (set_cookies eng argv)) = []"
  "pdf_calls (events (measure_page eng pa)) = []"
  "pdf_calls (events (inject_scripts eng pa)) = []"
  "pdf_calls (events (emulate_media eng pa)) = []"
  "pdf_calls (events (write_stdout argv b)) = []"
  "pdf_calls (events (set_viewport eng sa)) = []"
  by (rule pdf_calls_nil, rule emits_blocks [unfolded emits_def], simp_all)+

lemma blocks_no_screenshot_call [simp]:
  "screenshot_calls (events (set_cookies eng argv)) = []"
  "screenshot_calls (events (measure_page eng pa)) = []"
  "screenshot_calls (events (inject_scripts eng pa)) = []"
  "screenshot_calls (events (emulate_media eng pa)) = []"
  "screenshot_calls (events (write_stdout argv b)) = []"
  "screenshot_calls (events (set_viewport eng sa)) = []"
  by (rule screenshot_calls_nil, rule emits_blocks [unfolded emits_def], simp_all)+

lemma blocks_no_stdout [simp]:
  "stdout_writes (events (set_cookies eng argv)) = []"
  "stdout_writes (events (measure_page eng pa)) = []"
  "stdout_writes (events (inject_scripts eng pa)) = []"
  "stdout_writes (events (emulate_media eng pa)) = []"
  "stdout_writes (events (set_viewport eng sa)) = []"
  by (rule stdout_writes_nil, rule emits_blocks [unfolded emits_def], simp_all)+

lemma write_stdout_writes [simp]:
  "stdout_writes (events (write_stdout argv b)) = (if truthy_opt (output_arg argv) then [] else [b])"
  by (simp add: write_stdout_def)

lemma and_then_ReturnE:
  assumes "outcome (and_then m f) = Return y"
  obtains x where "outcome m = Return x" "outcome (f x) = Return y"
  using assms by (cases "outcome m") (auto simp: outcome_and_then)

lemma print_success:
  assumes "outcome (print lib eng pa) = Return ()"
  shows "\<exists>opts. pdf_calls (events (print lib eng pa)) = [opts] \<and>
     screenshot_calls (events (print lib eng pa)) = [] \<and>
     pdf_path opts = or_null (output_arg pa) \<and>
     stdout_writes (events (print lib eng pa)) =
       (if truthy_opt (output_arg pa) then [] else [pdf_result eng opts])"
  using assms unfolding print_def Let_def
  by (auto elim!: and_then_ReturnE simp: events_and_then pdf_options_of_def
      split: option.splits sum.splits)

lemma screenshot_success:
  assumes "outcome (screenshot lib eng sa) = Return ()"
  shows "\<exists>opts. screenshot_calls (events (screenshot lib eng sa)) = [opts] \<and>
     pdf_calls (events (screenshot lib eng sa)) = [] \<and>
     shot_path opts = or_null (output_arg sa) \<and>
     stdout_writes (events (screenshot lib eng sa)) =
       (if truthy_opt (output_arg sa) then [] else [screenshot_result eng opts])"
  using assms unfolding screenshot_def Let_def
  by (auto elim!: and_then_ReturnE simp: events_and_then
      split: option.splits sum.splits)

lemma stdout_writes_empty: "(\<And>b. StdoutWrite b \<notin> set t) \<Longrightarrow> stdout_writes t = []"
  by (cases "stdout_writes t") (auto simp: stdout_writes_mem [symmetric])

lemma output_files_empty:
  assumes "\<And>opts. Call (Pdf opts) \<in> set t \<Longrightarrow> pdf_path opts = None"
    and "\<And>opts. Call (Screenshot opts) \<in> set t \<Longrightarrow> shot_path opts = None"
  shows "output_files t = []"
  using assms by (auto simp: output_files_def pdf_calls_mem screenshot_calls_mem)


lemma print_one_sink:
  "output_files (events (print_handler lib eng pa)) = [] \<or>
   stdout_writes (events (print_handler lib eng pa)) = []"
proof (cases "truthy_opt (output_arg pa)")
  case True
  have "stdout_writes (events (print_handler lib eng pa)) = []"
  proof (rule stdout_writes_empty, rule notI)
    fix b
    assume "StdoutWrite b \<in> set (events (print_handler lib eng pa))"
    then have "StdoutWrite b \<in> set (events (print lib eng pa))"
      unfolding print_handler_def by (rule handler_stdout)
    from emitsD [OF print_emits this] True show False by simp
  qed
  then show ?thesis ..
next
  case False
  have "output_files (events (print_handler lib eng pa)) = []"
  proof (rule output_files_empty)
    fix opts
    assume "Call (Pdf opts) \<in> set (events (print_handler lib eng pa))"
    then have "Call (Pdf opts) \<in> set (events (print lib eng pa))"
      unfolding print_handler_def by (rule handler_call)
    from emitsD [OF print_emits this] False show "pdf_path opts = None"
      by (simp add: pdf_options_of_def or_null_def)
  next
    fix opts
    assume "Call (Screenshot opts) \<in> set (events (print_handler lib eng pa))"
    then have "Call (Screenshot opts) \<in> set (events (print lib eng pa))"
      unfolding print_handler_def by (rule handler_call)
    from emitsD [OF print_emits this] show "shot_path opts = None" by simp
  qed
  then show ?thesis ..
qed

lemma screenshot_one_sink:
  "output_files (events (screenshot_handler lib eng sa)) = [] \<or>
   stdout_writes (events (screenshot_handler lib eng sa)) = []"
proof (cases "truthy_opt (output_arg sa)")
  case True
  have "stdout_writes (events (screenshot_handler lib eng sa)) = []"
  proof (rule stdout_writes_empty, rule notI)
    fix b
    assume "StdoutWrite b \<in> set (events (screenshot_handler lib eng sa))"
    then have "StdoutWrite b \<in> set (events (screenshot lib eng sa))"
      unfolding screenshot_handler_def by (rule handler_stdout)
    from emitsD [OF screenshot_emits this] True show False by simp
  qed
  then show ?thesis ..
next
  case False
  have "output_files (events (screenshot_handler lib eng sa)) = []"
  proof (rule output_files_empty)
    fix opts
    assume "Call (Screenshot opts) \<in> set (events (screenshot_handler lib eng sa))"
    then have "Call (Screenshot opts) \<in> set (events (screenshot lib eng sa))"
      unfolding screenshot_handler_def by (rule handler_call)
    from emitsD [OF screenshot_emits this] False show "shot_path opts = None"
      by (simp add: or_null_def)
  next
    fix opts
    assume "Call (Pdf opts) \<in> set (events (screenshot_handler lib eng sa))"
    then have "Call (Pdf opts) \<in> set (events (screenshot lib eng sa))"
      unfolding screenshot_handler_def by (rule handler_call)
    from emitsD [OF screenshot_emits this] show "pdf_path opts = None" by simp
  qed
  then show ?thesis ..
qed

lemma truthy_iff: "truthy p \<longleftrightarrow> p \<noteq> Str [] \<and> p \<noteq> Num 0"
  by (cases p) auto

lemma falsy_iff: "\<not> truthy_opt x \<longleftrightarrow> x = None \<or> x = Some (Str []) \<or> x = Some (Num 0)"
  by (cases x) (auto simp: truthy_iff)

lemma handler_returns:
  assumes "outcome (runtime eng (handle label body)) = Return ()"
  shows "outcome body = Return () \<and> events (runtime eng (handle label body)) = events body"
proof -
  from runtime_Return [OF assms] have eq: "runtime eng (handle label body) = handle label body" .
  with assms have "outcome (handle label body) = Return ()" by simp
  then have "outcome body = Return ()"
    by (simp add: outcome_handle split: result.splits)
  with eq show ?thesis by (simp add: events_handle)
qed

text \<open>
  Claim C4, as the code has it. For every successful run of either command: if an output
  path was given and is neither the empty string nor the number 0, the engine is asked to
  save the result at that path, once, and nothing is written to the standard output
  stream; if no output path was given, or the empty string or the number 0 was, the
  engine is asked to save no file and the buffer it returned is written to the standard
  output stream, once. In no run, successful or not, are both sinks used.
\<close>

theorem output_sink:
  "(outcome (print_handler lib eng pa) = Return () \<longrightarrow>
      (\<forall>p. output_arg pa = Some p \<and> p \<noteq> Str [] \<and> p \<noteq> Num 0 \<longrightarrow>
         output_files (events (print_handler lib eng pa)) = [p] \<and>
         stdout_writes (events (print_handler lib eng pa)) = []) \<and>
      (output_arg pa = None \<or> output_arg pa = Some (Str []) \<or> output_arg pa = Some (Num 0) \<longrightarrow>
         output_files (events (print_handler lib eng pa)) = [] \<and>
         length (pdf_calls (events (print_handler lib eng pa))) = 1 \<and>
         stdout_writes (events (print_handler lib eng pa)) =
           map (pdf_result eng) (pdf_calls (events (print_handler lib eng pa))))) \<and>
   (outcome (screenshot_handler lib eng sa) = Return () \<longrightarrow>
      (\<forall>p. output_arg sa = Some p \<and> p \<noteq> Str [] \<and> p \<noteq> Num 0 \<longrightarrow>
         output_files (events (screenshot_handler lib eng sa)) = [p] \<and>
         stdout_writes (events (screenshot_handler lib eng sa)) = []) \<and>
      (output_arg sa = None \<or> output_arg sa = Some (Str []) \<or> output_arg sa = Some (Num 0) \<longrightarrow>
         output_files (events (screenshot_handler lib eng sa)) = [] \<and>
         length (screenshot_calls (events (screenshot_handler lib eng sa))) = 1 \<and>
         stdout_writes (events (screenshot_handler lib eng sa)) =
           map (screenshot_result eng)
             (screenshot_calls (events (screenshot_handler lib eng sa))))) \<and>
   (output_files (events (print_handler lib eng pa)) = [] \<or>
    stdout_writes (events (print_handler lib eng pa)) = []) \<and>
   (output_files (events (screenshot_handler lib eng sa)) = [] \<or>
    stdout_writes (events (screenshot_handler lib eng sa)) = [])"
proof -
  have p: "(\<forall>p. output_arg pa = Some p \<and> p \<noteq> Str [] \<and> p \<noteq> Num 0 \<longrightarrow>
         output_files (events (print_handler lib eng pa)) = [p] \<and>
         stdout_writes (events (print_handler lib eng pa)) = []) \<and>
      (output_arg pa = None \<or> output_arg pa = Some (Str []) \<or> output_arg pa = Some (Num 0) \<longrightarrow>
         output_files (events (print_handler lib eng pa)) = [] \<and>
         length (pdf_calls (events (print_handler lib eng pa))) = 1 \<and>
         stdout_writes (events (print_handler lib eng pa)) =
           map (pdf_result eng) (pdf_calls (events (print_handler lib eng pa))))"
    if "outcome (print_handler lib eng pa) = Return ()"
  proof -
    from handler_returns [OF that [unfolded print_handler_def]]
    have ok: "outcome (print lib eng pa) = Return ()"
      and ev: "events (print_handler lib eng pa) = events (print lib eng pa)"
      by (simp_all add: print_handler_def)
    from print_success [OF ok] show ?thesis
      unfolding ev falsy_iff [symmetric] truthy_iff [symmetric]
      by (auto simp: output_files_def or_null_def)
  qed
  have s: "(\<forall>p. output_arg sa = Some p \<and> p \<noteq> Str [] \<and> p \<noteq> Num 0 \<longrightarrow>
         output_files (events (screenshot_handler lib eng sa)) = [p] \<and>
         stdout_writes (events (screenshot_handler lib eng sa)) = []) \<and>
      (output_arg sa = None \<or> output_arg sa = Some (Str []) \<or> output_arg sa = Some (Num 0) \<longrightarrow>
         output_files (events (screenshot_handler lib eng sa)) = [] \<and>
         length (screenshot_calls (events (screenshot_handler lib eng sa))) = 1 \<and>
         stdout_writes (events (screenshot_handler lib eng sa)) =
           map (screenshot_result eng)
             (screenshot_calls (events (screenshot_handler lib eng sa))))"
    if "outcome (screenshot_handler lib eng sa) = Return ()"
  proof -
    from handler_returns [OF that [unfolded screenshot_handler_def]]
    have ok: "outcome (screenshot lib eng sa) = Return ()"
      and ev: "events (screenshot_handler lib eng sa) = events (screenshot lib eng sa)"
      by (simp_all add: screenshot_handler_def)
    from screenshot_success [OF ok] show ?thesis
      unfolding ev falsy_iff [symmetric] truthy_iff [symmetric]
      by (auto simp: output_files_def or_null_def)
  qed
  from p s print_one_sink [of lib eng pa] screenshot_one_sink [of lib eng sa]
  show ?thesis by blast
qed

text \<open>
  The theorem at work: \<^verbatim>\<open>print\<close> with an output path, \<^verbatim>\<open>screenshot\<close> without.
\<close>

theorem output_sink_witness:
  "outcome (print_handler sample_libs sample_engine
      ((print_defaults ''page.html'')\<lparr>output_arg := Some (Str ''out.pdf'')\<rparr>)) = Return () \<and>
   output_files (events (print_handler sample_libs sample_engine
      ((print_defaults ''page.html'')\<lparr>output_arg := Some (Str ''out.pdf'')\<rparr>))) =
     [Str ''out.pdf''] \<and>
   stdout_writes (events (print_handler sample_libs sample_engine
      ((print_defaults ''page.html'')\<lparr>output_arg := Some (Str ''out.pdf'')\<rparr>))) = [] \<and>
   outcome (screenshot_handler sample_libs sample_engine (screenshot_defaults ''page.html'')) =
     Return () \<and>
   output_files (events (screenshot_handler sample_libs sample_engine
      (screenshot_defaults ''page.html''))) = [] \<and>
   stdout_writes (events (screenshot_handler sample_libs sample_engine
      (screenshot_defaults ''page.html''))) = [[137, 80, 78, 71]]"
proof -
  have run: "outcome (print_handler sample_libs sample_engine
      ((print_defaults ''page.html'')\<lparr>output_arg := Some (Str ''out.pdf'')\<rparr>)) = Return () \<and>
   output_files (events (print_handler sample_libs sample_engine
      ((print_defaults ''page.html'')\<lparr>output_arg := Some (Str ''out.pdf'')\<rparr>))) =
     [Str ''out.pdf''] \<and>
   stdout_writes (events (print_handler sample_libs sample_engine
      ((print_defaults ''page.html'')\<lparr>output_arg := Some (Str ''out.pdf'')\<rparr>))) = [] \<and>
   outcome (screenshot_handler sample_libs sample_engine (screenshot_defaults ''page.html'')) =
     Return () \<and>
   output_files (events (screenshot_handler sample_libs sample_engine
      (screenshot_defaults ''page.html''))) = [] \<and>
   stdout_writes (events (screenshot_handler sample_libs sample_engine
      (screenshot_defaults ''page.html''))) = [[137, 80, 78, 71]]"
    by code_simp
  from output_sink [of sample_libs sample_engine
      "(print_defaults ''page.html'')\<lparr>output_arg := Some (Str ''out.pdf'')\<rparr>"
      "screenshot_defaults ''page.html''"] run
  show ?thesis by simp
qed

text \<open>
  The claim as the specification words it, the file whenever an output path argument was
  given, fails for the arguments that the tests \<^verbatim>\<open>argv.output || null\<close> and
  \<^verbatim>\<open>!argv.output\<close> take for absent: the empty string, and \<^verbatim>\<open>0\<close>, which is
  delivered as the number 0. The buffer goes to the standard output stream.
\<close>

theorem falsy_output_path_counterexample:
  "outcome (print_handler sample_libs sample_engine
      ((print_defaults ''page.html'')\<lparr>output_arg := Some (Str '''')\<rparr>)) = Return () \<and>
   output_files (events (print_handler sample_libs sample_engine
      ((print_defaults ''page.html'')\<lparr>output_arg := Some (Str '''')\<rparr>))) = [] \<and>
   stdout_writes (events (print_handler sample_libs sample_engine
      ((print_defaults ''page.html'')\<lparr>output_arg := Some (Str '''')\<rparr>))) = [[37, 80, 68, 70]] \<and>
   outcome (print_handler sample_libs sample_engine
      ((print_defaults ''page.html'')\<lparr>output_arg := Some (Num 0)\<rparr>)) = Return () \<and>
   output_files (events (print_handler sample_libs sample_engine
      ((print_defaults ''page.html'')\<lparr>output_arg := Some (Num 0)\<rparr>))) = [] \<and>
   stdout_writes (events (print_handler sample_libs sample_engine
      ((print_defaults ''page.html'')\<lparr>output_arg := Some (Num 0)\<rparr>))) = [[37, 80, 68, 70]]"
  by code_simp

section \<open>Viewport parsing\<close>






lemma set_viewport_exit: "outcome (set_viewport eng sa) = Exited k \<Longrightarrow> k = 1"
  by (auto simp: set_viewport_def outcome_and_then
      split: option.splits if_splits viewport_arg.splits)





section \<open>A cookie without a colon\<close>

lemma set_cookies_fails:
  assumes "truthy_cookie (cookie argv)" and "s \<in> set (supplied (cookie argv))"
    and "CHR '':'' \<notin> set s"
  shows "set_cookies eng argv =
     (Throw (Error ''cookie must contain : delimiter''), [ConsoleError ''Setting cookies''])"
  using assms(1) buildCookies_fails [OF assms]
  by (simp add: set_cookies_def and_then_def console_error_def lift_def throw_def)

text \<open>
  Nothing awaited follows the failed cookie parsing, so a rejection that nothing handles
  has no say in how the run ends.
\<close>

lemma runtime_after_cookies:
  "runtime eng
     (Exited 1,
      [Call (Launch args), Call NewPage, Call (SetJavaScriptEnabled False),
       ConsoleError ''Setting cookies'', ConsoleErrorWith label err]) =
     (Exited 1,
      [Call (Launch args), Call NewPage, Call (SetJavaScriptEnabled False),
       ConsoleError ''Setting cookies'', ConsoleErrorWith label err])"
  by (simp add: runtime_def split: option.splits)

text \<open>
  Claim C7, as the code has it. Whenever \<^verbatim>\<open>argv.cookie\<close> is an array or a non-empty
  string, and one of the strings supplied holds no colon, either command ends with exit
  status 1 and navigates nowhere; when the steps before the cookies succeed, among them
  target resolution, which asks for a positional argument delivered as a string, what
  fails is the cookie parsing, with the error \<^verbatim>\<open>cookie must contain : delimiter\<close>,
  printed behind the label of the command.
\<close>

theorem cookie_without_delimiter:
  "(truthy_cookie (cookie pa) \<and> (\<exists>s\<in>set (supplied (cookie pa)). CHR '':'' \<notin> set s) \<longrightarrow>
      exit_status (outcome (print_handler lib eng pa)) = 1 \<and>
      gotos (events (print_handler lib eng pa)) = [] \<and>
      (rejects eng (Launch (buildLaunchOptions pa)) = None \<and> rejects eng NewPage = None \<and>
       (\<exists>s. url pa = Str s) \<longrightarrow>
         events (print_handler lib eng pa) =
           [Call (Launch (buildLaunchOptions pa)), Call NewPage,
            Call (SetJavaScriptEnabled False), ConsoleError ''Setting cookies'',
            ConsoleErrorWith ''Failed to generate pdf:''
              (Error ''cookie must contain : delimiter'')])) \<and>
   (truthy_cookie (cookie sa) \<and> (\<exists>s\<in>set (supplied (cookie sa)). CHR '':'' \<notin> set s) \<longrightarrow>
      exit_status (outcome (screenshot_handler lib eng sa)) = 1 \<and>
      gotos (events (screenshot_handler lib eng sa)) = [] \<and>
      (rejects eng (Launch (buildLaunchOptions sa)) = None \<and> rejects eng NewPage = None \<and>
       (\<exists>s. url sa = Str s) \<and> outcome (set_viewport eng sa) = Return () \<longrightarrow>
         events (screenshot_handler lib eng sa) =
           [Call (Launch (buildLaunchOptions sa)), Call NewPage] @ events (set_viewport eng sa) @
           [ConsoleError ''Setting cookies'',
            ConsoleErrorWith ''Failed to take screenshot:''
              (Error ''cookie must contain : delimiter'')]))"
proof (intro conjI impI)
  assume "truthy_cookie (cookie pa) \<and> (\<exists>s\<in>set (supplied (cookie pa)). CHR '':'' \<notin> set s)"
  then obtain s where "truthy_cookie (cookie pa)" "s \<in> set (supplied (cookie pa))"
    "CHR '':'' \<notin> set s" by blast
  note fails = set_cookies_fails [OF this]
  have "\<exists>e. outcome (print lib eng pa) = Throw e"
    by (simp add: print_def Let_def outcome_and_then fails split: option.splits sum.splits)
  then obtain e where "outcome (print lib eng pa) = Throw e" ..
  then show "exit_status (outcome (print_handler lib eng pa)) = 1"
    unfolding print_handler_def by (rule handler_throw_status)
  have "gotos (events (print lib eng pa)) = []"
    by (simp add: print_def Let_def events_and_then outcome_and_then fails
        split: option.splits sum.splits)
  then show "gotos (events (print_handler lib eng pa)) = []"
    unfolding print_handler_def by (rule handler_gotos)
  assume "rejects eng (Launch (buildLaunchOptions pa)) = None \<and> rejects eng NewPage = None \<and>
      (\<exists>s. url pa = Str s)"
  then obtain t where ok: "rejects eng (Launch (buildLaunchOptions pa)) = None"
      "rejects eng NewPage = None" "url pa = Str t"
    by blast
  have "handle ''Failed to generate pdf:'' (print lib eng pa) =
      (Exited 1,
       [Call (Launch (buildLaunchOptions pa)), Call NewPage,
        Call (SetJavaScriptEnabled False), ConsoleError ''Setting cookies'',
        ConsoleErrorWith ''Failed to generate pdf:''
          (Error ''cookie must contain : delimiter'')])"
    using ok
    by (intro prod_eqI)
       (simp_all add: outcome_handle events_handle print_def Let_def events_and_then
        outcome_and_then fails)
  then show "events (print_handler lib eng pa) =
           [Call (Launch (buildLaunchOptions pa)), Call NewPage,
            Call (SetJavaScriptEnabled False), ConsoleError ''Setting cookies'',
            ConsoleErrorWith ''Failed to generate pdf:''
              (Error ''cookie must contain : delimiter'')]"
    by (simp only: print_handler_def runtime_after_cookies) simp
next
  assume "truthy_cookie (cookie sa) \<and> (\<exists>s\<in>set (supplied (cookie sa)). CHR '':'' \<notin> set s)"
  then obtain s where "truthy_cookie (cookie sa)" "s \<in> set (supplied (cookie sa))"
    "CHR '':'' \<notin> set s" by blast
  note fails = set_cookies_fails [OF this]
  show "exit_status (outcome (screenshot_handler lib eng sa)) = 1"
    unfolding screenshot_handler_eq
    by (cases "outcome (set_viewport eng sa)")
       (auto simp: outcome_handle screenshot_def Let_def outcome_and_then
        fails exit_status_def dest: set_viewport_exit split: option.splits sum.splits)
  show "gotos (events (screenshot_handler lib eng sa)) = []"
    unfolding screenshot_handler_eq
    by (cases "outcome (set_viewport eng sa)")
       (simp_all add: events_handle screenshot_def Let_def events_and_then
        outcome_and_then fails split: option.splits sum.splits)
  assume "rejects eng (Launch (buildLaunchOptions sa)) = None \<and> rejects eng NewPage = None \<and>
       (\<exists>s. url sa = Str s) \<and> outcome (set_viewport eng sa) = Return ()"
  then obtain t where ok: "rejects eng (Launch (buildLaunchOptions sa)) = None"
      "rejects eng NewPage = None" "url sa = Str t" "outcome (set_viewport eng sa) = Return ()"
    by blast
  then show "events (screenshot_handler lib eng sa) =
           [Call (Launch (buildLaunchOptions sa)), Call NewPage] @ events (set_viewport eng sa) @
           [ConsoleError ''Setting cookies'',
            ConsoleErrorWith ''Failed to take screenshot:''
              (Error ''cookie must contain : delimiter'')]"
    unfolding screenshot_handler_eq
    by (simp add: events_handle screenshot_def Let_def events_and_then
        outcome_and_then fails)
qed

text \<open>
  The theorem at work: two cookies for \<^verbatim>\<open>print\<close>, the second without a colon, and a
  single one without a colon for \<^verbatim>\<open>screenshot\<close>.
\<close>

theorem cookie_without_delimiter_witness:
  "truthy_cookie (CookieArray [''a:b'', ''token'']) \<and>
   supplied (CookieArray [''a:b'', ''token'']) = [''a:b'', ''token''] \<and>
   exit_status (outcome (print_handler sample_libs sample_engine
      ((print_defaults ''page.html'')\<lparr>cookie := CookieArray [''a:b'', ''token'']\<rparr>))) = 1 \<and>
   gotos (events (print_handler sample_libs sample_engine
      ((print_defaults ''page.html'')\<lparr>cookie := CookieArray [''a:b'', ''token'']\<rparr>))) = [] \<and>
   events (print_handler sample_libs sample_engine
      ((print_defaults ''page.html'')\<lparr>cookie := CookieArray [''a:b'', ''token'']\<rparr>)) =
     [Call (Launch []), Call NewPage, Call (SetJavaScriptEnabled False),
      ConsoleError ''Setting cookies'',
      ConsoleErrorWith ''Failed to generate pdf:'' (Error ''cookie must contain : delimiter'')] \<and>
   exit_status (outcome (screenshot_handler sample_libs sample_engine
      ((screenshot_defaults ''page.html'')\<lparr>cookie := CookieString ''token''\<rparr>))) = 1 \<and>
   gotos (events (screenshot_handler sample_libs sample_engine
      ((screenshot_defaults ''page.html'')\<lparr>cookie := CookieString ''token''\<rparr>))) = []"
proof -
  have given: "truthy_cookie (CookieArray [''a:b'', ''token''])"
    "supplied (CookieArray [''a:b'', ''token'']) = [''a:b'', ''token'']"
    "CHR '':'' \<notin> set ''token''"
    "rejects sample_engine (Launch []) = None" "rejects sample_engine NewPage = None"
    "buildLaunchOptions
       ((print_defaults ''page.html'')\<lparr>cookie := CookieArray [''a:b'', ''token'']\<rparr>) = []"
    by (simp_all add: sample_engine_def print_defaults_def buildLaunchOptions_def)
  from given cookie_without_delimiter [of
      "(print_defaults ''page.html'')\<lparr>cookie := CookieArray [''a:b'', ''token'']\<rparr>"
      sample_libs sample_engine
      "(screenshot_defaults ''page.html'')\<lparr>cookie := CookieString ''token''\<rparr>"]
  show ?thesis by (simp add: print_defaults_def screenshot_defaults_def)
qed

text \<open>
  The claim as the specification words it fails twice. The empty string of
  \<^verbatim>\<open>--cookie ""\<close> holds no colon, but the test \<^verbatim>\<open>if (argv.cookie)\<close> takes it for
  absent, and the run navigates and ends with status 0. And with a cookie without a colon
  \<^verbatim>\<open>print 123\<close> never parses the cookie: target resolution throws on the number 123
  before, and the error reported is that one.
\<close>

theorem cookie_counterexample:
  "supplied (cookie ((print_defaults ''page.html'')\<lparr>cookie := CookieString ''''\<rparr>)) = [''''] \<and>
   CHR '':'' \<notin> set '''' \<and>
   exit_status (outcome (print_handler sample_libs sample_engine
      ((print_defaults ''page.html'')\<lparr>cookie := CookieString ''''\<rparr>))) = 0 \<and>
   gotos (events (print_handler sample_libs sample_engine
      ((print_defaults ''page.html'')\<lparr>cookie := CookieString ''''\<rparr>))) =
     [''file:///home/user/page.html''] \<and>
   events (print_handler sample_libs sample_engine
      ((print_defaults ''123'')\<lparr>url := Num 123, cookie := CookieArray [''token'']\<rparr>)) =
     [Call (Launch []), Call NewPage, Call (SetJavaScriptEnabled False),
      ConsoleErrorWith ''Failed to generate pdf:''
        (TypeError ''Expected a string, got number'')]"
  by code_simp

section \<open>Errors and the exit status\<close>

lemma last_ok_call_ok: "last_ok eng (Return x) ev \<Longrightarrow> call_ok eng ev"
  by (cases ev; cases "case ev of Call c \<Rightarrow> rejects eng c | _ \<Rightarrow> None")
     (auto split: option.splits)

lemma call_ok_last_ok: "call_ok eng ev \<Longrightarrow> last_ok eng r ev"
  by (cases ev) (auto split: option.splits)

lemma last_ok_Throw: "last_ok eng (Throw e :: 'a result) ev = last_ok eng (Throw e :: 'b result) ev"
  by (cases ev) (auto split: option.splits)

lemma last_ok_Exited:
  "last_ok eng (Exited k :: 'a result) ev = last_ok eng (Exited k :: 'b result) ev"
  by (cases ev) (auto split: option.splits)

lemma settled_and_then:
  assumes m: "settled eng m" and f: "\<And>x. outcome m = Return x \<Longrightarrow> settled eng (f x)"
  shows "settled eng (and_then m f)"
proof (cases "outcome m")
  case (Return x)
  from m Return have all: "list_all (call_ok eng) (events m)"
  proof (cases "events m" rule: rev_cases)
    case Nil
    then show ?thesis by simp
  next
    case (snoc xs ev)
    with m Return show ?thesis by (auto simp: settled_def dest: last_ok_call_ok)
  qed
  have bl: "list_all (call_ok eng) (butlast (events m))"
    using all by (auto simp: list_all_iff dest: in_set_butlastD)
  have la: "events m \<noteq> [] \<Longrightarrow> last_ok eng (outcome (f x)) (last (events m))"
    using all by (auto simp: list_all_iff intro: call_ok_last_ok)
  from f [OF Return] all Return bl la show ?thesis
    by (auto simp: settled_def events_and_then outcome_and_then butlast_append)
next
  case (Throw e)
  with m show ?thesis
    using last_ok_Throw [of eng e "last (events m)"]
    by (auto simp: settled_def events_and_then outcome_and_then)
next
  case (Exited k)
  with m show ?thesis
    using last_ok_Exited [of eng k "last (events m)"]
    by (auto simp: settled_def events_and_then outcome_and_then)
qed

lemma settled_prim [simp]:
  "settled eng (ret x)"
  "settled eng (throw e)"
  "settled eng (process_exit n)"
  "settled eng (lift v)"
  "settled eng (console_error s)"
  "settled eng (stdout_write b)"
  "settled eng (no_await (SetJavaScriptEnabled b'))"
  "settled eng (await eng c r)"
  by (simp_all add: settled_def split: option.splits)

lemma settled_blocks [simp]:
  "settled eng (set_cookies eng argv)"
  "settled eng (measure_page eng pa)"
  "settled eng (inject_scripts eng pa)"
  "settled eng (emulate_media eng pa)"
  "settled eng (write_stdout argv b)"
  "settled eng (set_viewport eng sa)"
  unfolding set_cookies_def measure_page_def inject_scripts_def emulate_media_def
    write_stdout_def set_viewport_def
  by (auto intro!: settled_and_then split: option.splits viewport_arg.splits)




lemma blocks_no_exit [simp]:
  "outcome (set_cookies eng argv) \<noteq> Exited k"
  "outcome (measure_page eng pa) \<noteq> Exited k"
  "outcome (inject_scripts eng pa) \<noteq> Exited k"
  "outcome (emulate_media eng pa) \<noteq> Exited k"
  "outcome (write_stdout argv b) \<noteq> Exited k"
  unfolding set_cookies_def measure_page_def inject_scripts_def emulate_media_def
    write_stdout_def
  by (auto simp: outcome_and_then split: option.splits sum.splits result.splits)




subsection \<open>The rejection of a dropped promise\<close>










end
